theory Spec2Isabelle
  imports Complex_Main
begin

section \<open>Errors\<close>

text \<open>
  The exceptions the modelled code can raise.  \<open>ValueError\<close> is raised by the
  year check of \<open>get_jours_hors_periode_principale\<close> (reason \<open>Annee_invalide\<close>) and
  by the constructor \<open>date(y, m, d)\<close> of the standard library when an argument is out
  of range (reason \<open>Date_hors_limites\<close>); \<open>OverflowError\<close> is raised by the same
  constructor when an argument does not fit a C \<open>int\<close>, and by \<open>date + timedelta\<close>
  when the result would lie after \<open>date.max\<close>.
\<close>

datatype raison = Annee_invalide int | Date_hors_limites

datatype error = ValueError raison | OverflowError

definition bind_e :: "error + 'a \<Rightarrow> ('a \<Rightarrow> error + 'b) \<Rightarrow> error + 'b" where
  "bind_e r f = (case r of Inl e \<Rightarrow> Inl e | Inr x \<Rightarrow> f x)"

section \<open>Calendar dates (\<open>datetime.date\<close>)\<close>

text \<open>
  A \<open>datetime.date\<close> is a triple of year, month and day in the proleptic Gregorian
  calendar, with \<open>1 \<le> year \<le> 9999\<close>.  The constructor of CPython converts its three
  arguments to C \<open>int\<close>s, raising \<open>OverflowError\<close> when one of them lies outside
  \<open>-2\<^sup>3\<^sup>1 .. 2\<^sup>3\<^sup>1 - 1\<close>, and then raises \<open>ValueError\<close> when they do not form a date of
  the calendar; \<open>weekday()\<close> is \<open>(toordinal() + 6) % 7\<close> with Monday as 0; comparison is
  lexicographic on (year, month, day).
\<close>

datatype date = Date (year: int) (month: int) (day: int)

definition is_leap :: "int \<Rightarrow> bool" where
  "is_leap y = (y mod 4 = 0 \<and> (y mod 100 \<noteq> 0 \<or> y mod 400 = 0))"

definition days_in_month :: "int \<Rightarrow> int \<Rightarrow> int" where
  "days_in_month y m =
     (if m = 2 then (if is_leap y then 29 else 28)
      else if m = 4 \<or> m = 6 \<or> m = 9 \<or> m = 11 then 30 else 31)"

definition days_before_year :: "int \<Rightarrow> int" where
  "days_before_year y = (y - 1) * 365 + (y - 1) div 4 - (y - 1) div 100 + (y - 1) div 400"

definition days_before_month :: "int \<Rightarrow> int \<Rightarrow> int" where
  "days_before_month y m =
     (if m < 1 \<or> 12 < m then 0
      else [0, 31, 59, 90, 120, 151, 181, 212, 243, 273, 304, 334] ! nat (m - 1)
           + (if 2 < m \<and> is_leap y then 1 else 0))"

definition toordinal :: "date \<Rightarrow> int" where
  "toordinal d = days_before_year (year d) + days_before_month (year d) (month d) + day d"

definition weekday :: "date \<Rightarrow> int" where
  "weekday d = (toordinal d + 6) mod 7"

definition valid_date :: "date \<Rightarrow> bool" where
  "valid_date d = (1 \<le> year d \<and> year d \<le> 9999 \<and> 1 \<le> month d \<and> month d \<le> 12
                   \<and> 1 \<le> day d \<and> day d \<le> days_in_month (year d) (month d))"

definition dans_int_c :: "int \<Rightarrow> bool" where
  "dans_int_c n = (- 2147483648 \<le> n \<and> n \<le> 2147483647)"

definition mk_date :: "int \<Rightarrow> int \<Rightarrow> int \<Rightarrow> error + date" where
  "mk_date y m d =
     (if \<not> (dans_int_c y \<and> dans_int_c m \<and> dans_int_c d) then Inl OverflowError
      else if valid_date (Date y m d) then Inr (Date y m d)
      else Inl (ValueError Date_hors_limites))"

definition date_max :: date where
  "date_max = Date 9999 12 31"

definition date_le :: "date \<Rightarrow> date \<Rightarrow> bool" where
  "date_le a b = (year a < year b
                  \<or> (year a = year b \<and> (month a < month b
                                           \<or> (month a = month b \<and> day a \<le> day b))))"

definition date_min :: "date \<Rightarrow> date \<Rightarrow> date" where
  "date_min a b = (if date_le a b then a else b)"

definition date_max2 :: "date \<Rightarrow> date \<Rightarrow> date" where
  "date_max2 a b = (if date_le b a then a else b)"

text \<open>
  \<open>d + timedelta(days=1)\<close> is the next calendar date; past \<open>date.max\<close> it raises
  \<open>OverflowError\<close>.  \<open>d + timedelta(days=n)\<close> for \<open>n \<ge> 0\<close> is \<open>n\<close> such steps.
\<close>

definition lendemain :: "date \<Rightarrow> date" where
  "lendemain d =
     (if day d < days_in_month (year d) (month d) then Date (year d) (month d) (day d + 1)
      else if month d < 12 then Date (year d) (month d + 1) 1
      else Date (year d + 1) 1 1)"

definition date_plus_un_jour :: "date \<Rightarrow> error + date" where
  "date_plus_un_jour d = (if d = date_max then Inl OverflowError else Inr (lendemain d))"

fun date_plus_jours :: "date \<Rightarrow> nat \<Rightarrow> error + date" where
  "date_plus_jours d 0 = Inr d"
| "date_plus_jours d (Suc n) = bind_e (date_plus_un_jour d) (\<lambda>d'. date_plus_jours d' n)"

text \<open>\<open>sorted(...)\<close> on a list of dates (a stable sort under \<open>date_le\<close>).\<close>

fun inserer_date :: "date \<Rightarrow> date list \<Rightarrow> date list" where
  "inserer_date x [] = [x]"
| "inserer_date x (y # ys) = (if date_le x y then x # y # ys else y # inserer_date x ys)"

definition sorted_dates :: "date list \<Rightarrow> date list" where
  "sorted_dates xs = foldr inserer_date xs []"

section \<open>fractionnement/utils.py\<close>

fun dates_annee :: "int \<Rightarrow> (int \<times> int) list \<Rightarrow> error + date list" where
  "dates_annee annee [] = Inr []"
| "dates_annee annee ((m, j) # rest) =
     bind_e (mk_date annee m j) (\<lambda>d. bind_e (dates_annee annee rest) (\<lambda>ds. Inr (d # ds)))"

definition get_jours_feries_fixes :: "int \<Rightarrow> error + date list" where
  "get_jours_feries_fixes annee =
     dates_annee annee [(1, 1), (5, 1), (5, 8), (7, 14), (8, 15), (11, 1), (11, 11), (12, 25)]"

definition calculer_paques :: "int \<Rightarrow> error + date" where
  "calculer_paques annee =
     (let a = annee mod 19;
          b = annee div 100;
          c = annee mod 100;
          d = b div 4;
          e = b mod 4;
          f = (b + 8) div 25;
          g = (b - f + 1) div 3;
          h = (19 * a + b - d - g + 15) mod 30;
          i = c div 4;
          k = c mod 4;
          l = (32 + 2 * e + 2 * i - h - k) mod 7;
          m = (a + 11 * h + 22 * l) div 451;
          mois = (h + l - 7 * m + 114) div 31;
          jour = ((h + l - 7 * m + 114) mod 31) + 1
      in mk_date annee mois jour)"

text \<open>
  The Django cache, restricted to the keys \<open>jours_feries_<annee>\<close>: a partial map from
  the year to the cached list.  Code that reads or writes the cache takes the cache and
  returns it updated, together with its result or the exception it raised.
\<close>

type_synonym cache = "int \<Rightarrow> date list option"

type_synonym 'a calcul = "cache \<Rightarrow> (error + 'a) \<times> cache"

definition pur :: "error + 'a \<Rightarrow> 'a calcul" where
  "pur r = (\<lambda>c. (r, c))"

definition retour :: "'a \<Rightarrow> 'a calcul" where
  "retour x = pur (Inr x)"

definition lever :: "error \<Rightarrow> 'a calcul" where
  "lever e = pur (Inl e)"

definition puis :: "'a calcul \<Rightarrow> ('a \<Rightarrow> 'b calcul) \<Rightarrow> 'b calcul" where
  "puis m f = (\<lambda>c. case m c of (Inl e, c') \<Rightarrow> (Inl e, c') | (Inr x, c') \<Rightarrow> f x c')"

definition cache_vide :: cache where
  "cache_vide = (\<lambda>annee. None)"

text \<open>The body of \<open>get_jours_feries\<close> on a cache miss (lines 101 to 110).\<close>

definition jours_feries_calcules :: "int \<Rightarrow> error + date list" where
  "jours_feries_calcules annee =
     bind_e (get_jours_feries_fixes annee) (\<lambda>jours_feries.
     bind_e (calculer_paques annee) (\<lambda>paques.
     bind_e (date_plus_jours paques 1) (\<lambda>lundi_paques.
     bind_e (date_plus_jours paques 39) (\<lambda>ascension.
     bind_e (date_plus_jours paques 50) (\<lambda>lundi_pentecote.
       Inr (sorted_dates (jours_feries @ [paques, lundi_paques, ascension, lundi_pentecote])))))))"

definition get_jours_feries :: "int \<Rightarrow> date list calcul" where
  "get_jours_feries annee =
     (\<lambda>c. case c annee of
            Some jours_feries \<Rightarrow> (Inr jours_feries, c)
          | None \<Rightarrow>
              (case jours_feries_calcules annee of
                 Inl e \<Rightarrow> (Inl e, c)
               | Inr jours_feries \<Rightarrow> (Inr jours_feries, c(annee \<mapsto> jours_feries))))"

definition est_jour_ouvre :: "date \<Rightarrow> bool" where
  "est_jour_ouvre d = (weekday d < 5)"

definition est_jour_ouvrable :: "date \<Rightarrow> bool" where
  "est_jour_ouvrable d = (weekday d < 6)"

text \<open>
  The counting loop shared by \<open>compter_jours_ouvres\<close> and \<open>compter_jours_ouvrables\<close>,
  which differ only in the weekday predicate:
  \<^verbatim>\<open>while current <= date_fin:
    if pred(current) and current not in jours_feries: compteur += 1
    current += timedelta(days=1)\<close>
\<close>

function boucle_comptage ::
  "(date \<Rightarrow> bool) \<Rightarrow> date list \<Rightarrow> date \<Rightarrow> date \<Rightarrow> int \<Rightarrow> error + int" where
  "boucle_comptage pred jours_feries current date_fin compteur =
     (if date_le current date_fin
      then (case date_plus_un_jour current of
              Inl e \<Rightarrow> Inl e
            | Inr suivant \<Rightarrow>
                boucle_comptage pred jours_feries suivant date_fin
                  (if pred current \<and> current \<notin> set jours_feries then compteur + 1 else compteur))
      else Inr compteur)"
  by pat_completeness auto
termination
proof (relation "measures [\<lambda>(p, jf, cur, fin, n). nat (year fin + 1 - year cur),
                           \<lambda>(p, jf, cur, fin, n). nat (12 - month cur),
                           \<lambda>(p, jf, cur, fin, n). nat (31 - day cur)]", goal_cases)
  case 1
  show ?case by simp
next
  case (2 pred jours_feries current date_fin compteur suivant)
  have dim: "days_in_month (year current) (month current) \<le> 31"
    by (simp add: days_in_month_def)
  from 2(2) have s: "suivant = lendemain current"
    by (simp add: date_plus_un_jour_def split: if_splits)
  from 2(1) have le: "year current \<le> year date_fin"
    by (auto simp: date_le_def)
  show ?case using dim le
    by (auto simp: s lendemain_def)
qed

definition compter_jours_ouvres :: "date \<Rightarrow> date \<Rightarrow> bool \<Rightarrow> int option \<Rightarrow> int calcul" where
  "compter_jours_ouvres date_debut date_fin exclure_feries annee_opt =
     (let annee = (case annee_opt of None \<Rightarrow> year date_debut | Some a \<Rightarrow> a)
      in puis (if exclure_feries then get_jours_feries annee else retour [])
           (\<lambda>jours_feries.
              pur (boucle_comptage est_jour_ouvre jours_feries date_debut date_fin 0)))"

definition compter_jours_ouvrables :: "date \<Rightarrow> date \<Rightarrow> bool \<Rightarrow> int option \<Rightarrow> int calcul" where
  "compter_jours_ouvrables date_debut date_fin exclure_feries annee_opt =
     (let annee = (case annee_opt of None \<Rightarrow> year date_debut | Some a \<Rightarrow> a)
      in puis (if exclure_feries then get_jours_feries annee else retour [])
           (\<lambda>jours_feries.
              pur (boucle_comptage est_jour_ouvrable jours_feries date_debut date_fin 0)))"

definition est_dans_periode_principale :: "date \<Rightarrow> bool" where
  "est_dans_periode_principale d =
     (let mois = month d; jour = day d
      in if mois = 5 \<and> 1 \<le> jour then True
         else if 6 \<le> mois \<and> mois \<le> 9 then True
         else if mois = 10 \<and> jour \<le> 31 then True
         else False)"

definition est_hors_periode_principale :: "date \<Rightarrow> bool" where
  "est_hors_periode_principale d = (\<not> est_dans_periode_principale d)"

section \<open>fractionnement/services/calcul_service.py\<close>

definition calculer_jours_fractionnement :: "int \<Rightarrow> int" where
  "calculer_jours_fractionnement jours_hors_periode =
     (if jours_hors_periode < 5 then 0
      else if 5 \<le> jours_hors_periode \<and> jours_hors_periode \<le> 7 then 1
      else 2)"

text \<open>
  The block of \<open>compter_jours_periode\<close> that decides whether a boundary day was counted
  (lines 144 to 153 for the start, 160 to 169 for the end).
\<close>

definition jour_est_compte :: "string \<Rightarrow> bool \<Rightarrow> int \<Rightarrow> date \<Rightarrow> bool calcul" where
  "jour_est_compte jours_ouvres_ou_ouvrables exclure_feries annee d =
     (let compte = (if jours_ouvres_ou_ouvrables = ''ouvrables''
                    then est_jour_ouvrable d else est_jour_ouvre d)
      in if exclure_feries \<and> compte
         then puis (get_jours_feries annee)
                (\<lambda>jours_feries. retour (if d \<in> set jours_feries then False else compte))
         else retour compte)"

definition compter_jours_periode ::
  "date \<Rightarrow> date \<Rightarrow> string \<Rightarrow> bool \<Rightarrow> int option \<Rightarrow> string \<Rightarrow> string \<Rightarrow> rat calcul" where
  "compter_jours_periode date_debut date_fin jours_ouvres_ou_ouvrables exclure_feries
       annee_opt debut_type fin_type =
     (let annee = (case annee_opt of None \<Rightarrow> year date_debut | Some a \<Rightarrow> a)
      in puis (if jours_ouvres_ou_ouvrables = ''ouvrables''
               then compter_jours_ouvrables date_debut date_fin exclure_feries (Some annee)
               else compter_jours_ouvres date_debut date_fin exclure_feries (Some annee))
           (\<lambda>jours_pleins.
         puis (jour_est_compte jours_ouvres_ou_ouvrables exclure_feries annee date_debut)
           (\<lambda>debut_compte.
         let total_jours = (if debut_compte \<and> debut_type = ''apres_midi''
                            then of_int jours_pleins - 1 / 2 else of_int jours_pleins)
         in puis (jour_est_compte jours_ouvres_ou_ouvrables exclure_feries annee date_fin)
           (\<lambda>fin_compte.
         let total_jours = (if fin_compte \<and> fin_type = ''matin''
                            then total_jours - 1 / 2 else total_jours)
         in retour (max 0 total_jours)))))"

text \<open>
  The records of the data layer.  \<open>unique_together = [['user', 'annee']]\<close> makes the
  tables of \<open>ParametresAnnee\<close> and \<open>CycleHebdomadaire\<close> partial maps from (user, year).
  \<open>PeriodeConge\<close> is a list of rows; a query returns them under the model's default
  ordering, \<open>-date_debut\<close>.
\<close>

type_synonym user = nat

record cycle_hebdomadaire =
  ch_heures_semaine :: rat
  ch_quotite_travail :: rat
  ch_jours_ouvres_ou_ouvrables :: string

record periode_conge =
  pc_id :: nat
  pc_user :: user
  pc_date_debut :: date
  pc_debut_type :: string
  pc_date_fin :: date
  pc_fin_type :: string
  pc_type_conge :: string
  pc_annee_civile :: int

record base =
  parametres_annee :: "user \<times> int \<Rightarrow> string option"
  cycles_hebdomadaires :: "user \<times> int \<Rightarrow> cycle_hebdomadaire option"
  periodes_conge :: "periode_conge list"

fun inserer_periode :: "periode_conge \<Rightarrow> periode_conge list \<Rightarrow> periode_conge list" where
  "inserer_periode p [] = [p]"
| "inserer_periode p (q # qs) =
     (if date_le (pc_date_debut q) (pc_date_debut p) then p # q # qs
      else q # inserer_periode p qs)"

definition periodes_filtrees :: "base \<Rightarrow> user \<Rightarrow> int \<Rightarrow> string \<Rightarrow> periode_conge list" where
  "periodes_filtrees db u annee type =
     foldr inserer_periode
       (filter (\<lambda>p. pc_user p = u \<and> pc_annee_civile p = annee \<and> pc_type_conge p = type)
          (periodes_conge db)) []"

definition ANNEE_MIN :: int where
  "ANNEE_MIN = 2020"

definition ANNEE_MAX :: int where
  "ANNEE_MAX = 2100"

text \<open>
  The body of the \<open>try\<close> block of \<open>get_jours_hors_periode_principale\<close> for one period
  (lines 229 to 289): the days of the period outside the main period.
\<close>

definition jours_hors_de_periode :: "string \<Rightarrow> int \<Rightarrow> periode_conge \<Rightarrow> rat calcul" where
  "jours_hors_de_periode jours_type annee periode =
     (let date_debut = pc_date_debut periode;
          date_fin = pc_date_fin periode;
          debut_type = pc_debut_type periode;
          fin_type = pc_fin_type periode;
          periode_entiere_hors =
            (((11 \<le> month date_debut \<and> 11 \<le> month date_fin)
              \<or> (month date_debut \<le> 4 \<and> month date_fin \<le> 4)
              \<or> (11 \<le> month date_debut \<and> month date_fin \<le> 4))
             \<and> \<not> (5 \<le> month date_debut \<and> month date_debut \<le> 10))
      in if periode_entiere_hors
         then compter_jours_periode date_debut date_fin jours_type True (Some annee)
                debut_type fin_type
         else if 5 \<le> month date_debut \<and> month date_fin \<le> 10
         then retour 0
         else
           puis (if month date_debut \<le> 4
                 then puis (pur (mk_date annee 4 30))
                        (\<lambda>fin_avril.
                           let date_fin_sous_periode = date_min date_fin fin_avril;
                               fin_type_sous = (if date_fin_sous_periode = date_fin
                                                then fin_type else ''apres_midi'')
                           in compter_jours_periode date_debut date_fin_sous_periode jours_type
                                True (Some annee) debut_type fin_type_sous)
                 else retour 0)
             (\<lambda>jours_hors.
           if 11 \<le> month date_fin
           then puis (pur (mk_date annee 11 1))
                  (\<lambda>debut_novembre.
                     let date_debut_sous_periode = date_max2 date_debut debut_novembre;
                         debut_type_sous = (if date_debut_sous_periode = date_debut
                                            then debut_type else ''matin'')
                     in puis (compter_jours_periode date_debut_sous_periode date_fin jours_type
                                True (Some annee) debut_type_sous fin_type)
                          (\<lambda>j. retour (jours_hors + j)))
           else retour jours_hors))"

text \<open>
  The loop over the periods: an exception raised while a period is processed is logged
  and the period is skipped.
\<close>

fun boucle_periodes :: "string \<Rightarrow> int \<Rightarrow> periode_conge list \<Rightarrow> rat \<Rightarrow> rat calcul" where
  "boucle_periodes jours_type annee [] total_jours_hors_periode =
     retour total_jours_hors_periode"
| "boucle_periodes jours_type annee (periode # reste) total_jours_hors_periode =
     (\<lambda>c. case jours_hors_de_periode jours_type annee periode c of
             (Inl e, c') \<Rightarrow> boucle_periodes jours_type annee reste total_jours_hors_periode c'
           | (Inr jours_hors, c') \<Rightarrow>
               boucle_periodes jours_type annee reste (total_jours_hors_periode + jours_hors) c')"

text \<open>\<open>int(x)\<close> on a \<open>Decimal\<close>: truncation towards zero.\<close>

definition int_of_decimal :: "rat \<Rightarrow> int" where
  "int_of_decimal x = (if 0 \<le> x then \<lfloor>x\<rfloor> else \<lceil>x\<rceil>)"

definition get_jours_hors_periode_principale :: "base \<Rightarrow> user \<Rightarrow> int \<Rightarrow> int calcul" where
  "get_jours_hors_periode_principale db u annee =
     (if annee < ANNEE_MIN \<or> ANNEE_MAX < annee
      then lever (ValueError (Annee_invalide annee))
      else
        (let jours_type = (case parametres_annee db (u, annee) of
                             Some jours_ouvres_ou_ouvrables \<Rightarrow> jours_ouvres_ou_ouvrables
                           | None \<Rightarrow> ''ouvres'');
             periodes = periodes_filtrees db u annee ''annuel''
         in puis (boucle_periodes jours_type annee periodes 0)
              (\<lambda>total_jours_hors_periode. retour (int_of_decimal total_jours_hors_periode))))"

record resultat =
  jours_hors_periode :: int
  jours_fractionnement :: int
  res_annee :: int

text \<open>Both \<open>except\<close> clauses log the exception and raise it again.\<close>

definition calculer_fractionnement_complet :: "base \<Rightarrow> user \<Rightarrow> int \<Rightarrow> resultat calcul" where
  "calculer_fractionnement_complet db u annee =
     (\<lambda>c. case get_jours_hors_periode_principale db u annee c of
             (Inl e, c') \<Rightarrow> (Inl e, c')
           | (Inr jours_hors, c') \<Rightarrow>
               (Inr \<lparr> jours_hors_periode = jours_hors,
                      jours_fractionnement = calculer_jours_fractionnement jours_hors,
                      res_annee = annee \<rparr>, c'))"

section \<open>Auxiliary notions for the statements\<close>

text \<open>
  A cache is coherent when every list it holds is the list \<open>get_jours_feries\<close> computes
  for that year: the only writer of these keys is \<open>get_jours_feries\<close> itself, so the
  empty cache is coherent and every call keeps it so.
\<close>

definition cache_coherent :: "cache \<Rightarrow> bool" where
  "cache_coherent c = (\<forall>annee jf. c annee = Some jf \<longrightarrow> jours_feries_calcules annee = Inr jf)"

text \<open>
  \<open>rend m r\<close>: started on any coherent cache, the computation \<open>m\<close> yields \<open>r\<close> (a value
  or an exception) and leaves a coherent cache.
\<close>

definition rend :: "'a calcul \<Rightarrow> error + 'a \<Rightarrow> bool" where
  "rend m r = (\<forall>c. cache_coherent c \<longrightarrow> fst (m c) = r \<and> cache_coherent (snd (m c)))"

text \<open>
  \<open>jour_compte jt d\<close>: the day \<open>d\<close> is a counted day under the convention \<open>jt\<close>, as
  \<open>compter_jours_periode\<close> chooses the predicate (any string other than
  \<open>'ouvrables'\<close> selects the working days, Monday to Friday).
\<close>

definition jour_compte :: "string \<Rightarrow> date \<Rightarrow> bool" where
  "jour_compte jt d = (if jt = ''ouvrables'' then est_jour_ouvrable d else est_jour_ouvre d)"

text \<open>\<open>rang d\<close>: the day of the year of \<open>d\<close> (\<open>d.timetuple().tm_yday\<close>).\<close>

definition rang :: "date \<Rightarrow> int" where
  "rang d = days_before_month (year d) (month d) + day d"

text \<open>
  The month and the day of Easter as the specification words them (the Gauss
  congruences), to be compared with \<open>calculer_paques\<close>.
\<close>

definition gauss_h :: "int \<Rightarrow> int" where
  "gauss_h annee =
     (19 * (annee mod 19) + annee div 100 - (annee div 100) div 4
        - (annee div 100 - (annee div 100 + 8) div 25 + 1) div 3 + 15) mod 30"

definition gauss_l :: "int \<Rightarrow> int" where
  "gauss_l annee =
     (32 + 2 * ((annee div 100) mod 4) + 2 * ((annee mod 100) div 4) - gauss_h annee
        - (annee mod 100) mod 4) mod 7"

definition gauss_m :: "int \<Rightarrow> int" where
  "gauss_m annee = (annee mod 19 + 11 * gauss_h annee + 22 * gauss_l annee) div 451"

definition gauss_mois :: "int \<Rightarrow> int" where
  "gauss_mois annee = (gauss_h annee + gauss_l annee - 7 * gauss_m annee + 114) div 31"

definition gauss_jour :: "int \<Rightarrow> int" where
  "gauss_jour annee = (gauss_h annee + gauss_l annee - 7 * gauss_m annee + 114) mod 31 + 1"

section \<open>Properties\<close>

subsection \<open>Fractionation thresholds\<close>

text \<open>
  Claim C1.  For every integer \<open>n\<close>, \<open>calculer_jours_fractionnement n\<close> is 0 when
  \<open>n < 5\<close>, 1 when \<open>5 \<le> n \<le> 7\<close> and 2 when \<open>n \<ge> 8\<close>; in particular it is 0 at 4,
  1 at 5 and at 7, and 2 at 8 and at 100.
\<close>

theorem calculer_jours_fractionnement_seuils:
  "(n < 5 \<longrightarrow> calculer_jours_fractionnement n = 0)
   \<and> (5 \<le> n \<and> n \<le> 7 \<longrightarrow> calculer_jours_fractionnement n = 1)
   \<and> (8 \<le> n \<longrightarrow> calculer_jours_fractionnement n = 2)
   \<and> calculer_jours_fractionnement 4 = 0
   \<and> calculer_jours_fractionnement 5 = 1
   \<and> calculer_jours_fractionnement 7 = 1
   \<and> calculer_jours_fractionnement 8 = 2
   \<and> calculer_jours_fractionnement 100 = 2"
  by (simp add: calculer_jours_fractionnement_def)

theorem calculer_jours_fractionnement_seuils_witness:
  "((3::int) < 5 \<and> calculer_jours_fractionnement 3 = 0)
   \<and> ((5::int) \<le> 6 \<and> (6::int) \<le> 7 \<and> calculer_jours_fractionnement 6 = 1)
   \<and> ((8::int) \<le> 9 \<and> calculer_jours_fractionnement 9 = 2)"
  using calculer_jours_fractionnement_seuils [of 3]
        calculer_jours_fractionnement_seuils [of 6]
        calculer_jours_fractionnement_seuils [of 9]
  by simp

subsection \<open>Easter\<close>

text \<open>
  The quantity \<open>h + l - 7m + 114\<close> of the Gauss congruences lies between 114 and 148,
  so the month is 3 or 4, and in April the day is at most 25.
\<close>

lemma div451:
  "0 \<le> (x::int) \<Longrightarrow> x \<le> 469 \<Longrightarrow>
     (x < 451 \<and> x div 451 = 0) \<or> (451 \<le> x \<and> x div 451 = 1)"
proof (cases "x < 451")
  case True
  assume "0 \<le> x"
  with True show ?thesis by simp
next
  case False
  assume "x \<le> 469"
  with False have "(x - 451) div 451 = 0" by simp
  moreover have "x div 451 = (x - 451) div 451 + 1"
    using False by (simp add: div_pos_geq)
  ultimately show ?thesis using False by simp
qed

lemma plage_mars_avril:
  "114 \<le> (n::int) \<Longrightarrow> n \<le> 148 \<Longrightarrow>
     (n div 31 = 3 \<or> n div 31 = 4) \<and> 0 \<le> n mod 31 \<and> n mod 31 \<le> 30
     \<and> (n div 31 = 4 \<longrightarrow> n mod 31 + 1 \<le> 25)"
  by presburger

lemma gauss_bornes:
  fixes a h l :: int
  assumes "0 \<le> a" "a \<le> 18" "0 \<le> h" "h \<le> 29" "0 \<le> l" "l \<le> 6"
  defines "n \<equiv> h + l - 7 * ((a + 11 * h + 22 * l) div 451) + 114"
  shows "114 \<le> n \<and> n \<le> 148"
proof -
  have "0 \<le> a + 11 * h + 22 * l" "a + 11 * h + 22 * l \<le> 469"
    using assms(1-6) by linarith+
  from div451[OF this]
  show ?thesis
  proof
    assume m0: "a + 11 * h + 22 * l < 451 \<and> (a + 11 * h + 22 * l) div 451 = 0"
    then have "h + l \<le> 34" using assms(1-6) by linarith
    then show ?thesis using m0 assms(1-6) by (simp add: n_def)
  next
    assume m1: "451 \<le> a + 11 * h + 22 * l \<and> (a + 11 * h + 22 * l) div 451 = 1"
    then have "34 \<le> h + l" using assms(1-6) by linarith
    then show ?thesis using m1 assms(1-6) by (simp add: n_def)
  qed
qed

lemma calculer_paques_gauss:
  "calculer_paques annee = mk_date annee (gauss_mois annee) (gauss_jour annee)"
  unfolding calculer_paques_def Let_def gauss_mois_def gauss_jour_def gauss_m_def
    gauss_l_def gauss_h_def
  by (rule refl)

lemma gauss_mois_jour:
  "(gauss_mois annee = 3 \<or> gauss_mois annee = 4) \<and> 1 \<le> gauss_jour annee
   \<and> gauss_jour annee \<le> 31 \<and> (gauss_mois annee = 4 \<longrightarrow> gauss_jour annee \<le> 25)"
proof -
  have a: "0 \<le> annee mod 19" "annee mod 19 \<le> 18" by simp_all
  have h: "0 \<le> gauss_h annee" "gauss_h annee \<le> 29" by (simp_all add: gauss_h_def)
  have l: "0 \<le> gauss_l annee" "gauss_l annee \<le> 6" by (simp_all add: gauss_l_def)
  define n where "n = gauss_h annee + gauss_l annee - 7 * gauss_m annee + 114"
  have "114 \<le> n \<and> n \<le> 148"
    using gauss_bornes[OF a h l] by (simp add: n_def gauss_m_def)
  then have "(n div 31 = 3 \<or> n div 31 = 4) \<and> 0 \<le> n mod 31 \<and> n mod 31 \<le> 30
     \<and> (n div 31 = 4 \<longrightarrow> n mod 31 + 1 \<le> 25)"
    using plage_mars_avril by blast
  moreover have "gauss_mois annee = n div 31" "gauss_jour annee = n mod 31 + 1"
    by (simp_all add: gauss_mois_def gauss_jour_def n_def)
  ultimately show ?thesis by simp
qed

lemma mk_date_mars_avril:
  assumes "1 \<le> annee" "annee \<le> 9999" "m = 3 \<or> m = 4" "1 \<le> j" "j \<le> 31" "m = 4 \<longrightarrow> j \<le> 25"
  shows "mk_date annee m j = Inr (Date annee m j)"
  using assms by (auto simp: mk_date_def dans_int_c_def valid_date_def days_in_month_def)

lemma paques_valide:
  assumes "1 \<le> annee" "annee \<le> 9999"
  shows "calculer_paques annee = Inr (Date annee (gauss_mois annee) (gauss_jour annee))"
  using gauss_mois_jour[of annee] assms
  by (simp add: calculer_paques_gauss mk_date_mars_avril)

lemma gauss_2024: "gauss_mois 2024 = 3 \<and> gauss_jour 2024 = 31"
proof -
  have h: "gauss_h 2024 = 4" by (simp add: gauss_h_def)
  have l: "gauss_l 2024 = 5" by (simp add: gauss_l_def h)
  have m: "gauss_m 2024 = 0" by (simp add: gauss_m_def h l)
  show ?thesis by (simp add: gauss_mois_def gauss_jour_def h l m)
qed

lemma gauss_2025: "gauss_mois 2025 = 4 \<and> gauss_jour 2025 = 20"
proof -
  have h: "gauss_h 2025 = 23" by (simp add: gauss_h_def)
  have l: "gauss_l 2025 = 6" by (simp add: gauss_l_def h)
  have m: "gauss_m 2025 = 0" by (simp add: gauss_m_def h l)
  show ?thesis by (simp add: gauss_mois_def gauss_jour_def h l m)
qed

lemma gauss_10000: "gauss_mois 10000 = 4 \<and> gauss_jour 10000 = 16"
proof -
  have h: "gauss_h 10000 = 22" by (simp add: gauss_h_def)
  have l: "gauss_l 10000 = 3" by (simp add: gauss_l_def h)
  have m: "gauss_m 10000 = 0" by (simp add: gauss_m_def h l)
  show ?thesis by (simp add: gauss_mois_def gauss_jour_def h l m)
qed

lemma paques_hors_limites:
  assumes "annee < 1 \<or> 9999 < annee"
  shows "\<exists>e. calculer_paques annee = Inl e"
  using assms by (auto simp: calculer_paques_gauss mk_date_def valid_date_def)

lemma gauss_10001: "gauss_mois 10001 = 4 \<and> gauss_jour 10001 = 8"
proof -
  have h: "gauss_h 10001 = 11" by (simp add: gauss_h_def)
  have l: "gauss_l 10001 = 6" by (simp add: gauss_l_def h)
  have m: "gauss_m 10001 = 0" by (simp add: gauss_m_def h l)
  show ?thesis by (simp add: gauss_mois_def gauss_jour_def h l m)
qed

text \<open>
  Claim C5.  For every year from 1 to 9999, \<open>calculer_paques\<close> returns the date of that
  year whose month and day are given by the Gauss congruences (\<open>a = annee mod 19\<close>,
  \<open>b = annee div 100\<close>, ..., \<open>m = (a + 11h + 22l) div 451\<close>, month
  \<open>(h + l - 7m + 114) div 31\<close>, day \<open>(h + l - 7m + 114) mod 31 + 1\<close>); Easter 2024 is
  2024-03-31 and Easter 2025 is 2025-04-20.  For a year outside 1 to 9999 no date is
  returned: the constructor raises, as it does for the year 10001.
\<close>

theorem calculer_paques_formule_de_gauss:
  "(1 \<le> annee \<and> annee \<le> 9999 \<longrightarrow>
      calculer_paques annee = Inr (Date annee (gauss_mois annee) (gauss_jour annee)))
   \<and> ((\<exists>d. calculer_paques annee = Inr d) = (1 \<le> annee \<and> annee \<le> 9999))
   \<and> calculer_paques 2024 = Inr (Date 2024 3 31)
   \<and> calculer_paques 2025 = Inr (Date 2025 4 20)"
proof -
  have a: "1 \<le> annee \<and> annee \<le> 9999 \<longrightarrow>
      calculer_paques annee = Inr (Date annee (gauss_mois annee) (gauss_jour annee))"
    using paques_valide[of annee] by simp
  have b: "(\<exists>d. calculer_paques annee = Inr d) = (1 \<le> annee \<and> annee \<le> 9999)"
  proof (cases "1 \<le> annee \<and> annee \<le> 9999")
    case True
    with a show ?thesis by simp
  next
    case False
    then have "annee < 1 \<or> 9999 < annee" by linarith
    from paques_hors_limites[OF this] False show ?thesis by auto
  qed
  have c: "calculer_paques 2024 = Inr (Date 2024 3 31)"
    using paques_valide[of 2024] by (simp add: gauss_2024)
  have d: "calculer_paques 2025 = Inr (Date 2025 4 20)"
    using paques_valide[of 2025] by (simp add: gauss_2025)
  from a b c d show ?thesis by simp
qed

theorem calculer_paques_formule_de_gauss_witness:
  "(1::int) \<le> 2023 \<and> (2023::int) \<le> 9999
   \<and> calculer_paques 2023 = Inr (Date 2023 (gauss_mois 2023) (gauss_jour 2023))
   \<and> (\<exists>d. calculer_paques 2023 = Inr d)"
  using calculer_paques_formule_de_gauss[of 2023] by simp

theorem calculer_paques_an_10001:
  "calculer_paques 10001 = Inl (ValueError Date_hors_limites)"
  by (simp add: calculer_paques_gauss gauss_10001 mk_date_def dans_int_c_def valid_date_def)

text \<open>
  Claim C10.  For every year the Gauss month is 3 or 4 and the day lies between 1 and 31,
  and between 1 and 25 in April.  The construction of the date at the end of
  \<open>calculer_paques\<close> succeeds for every year from 1 to 9999, the years that
  \<open>datetime.date\<close> supports; for any other year, such as the positive year 10000, it
  raises and no date is returned.
\<close>

theorem calculer_paques_totale:
  "((gauss_mois annee = 3 \<and> 1 \<le> gauss_jour annee \<and> gauss_jour annee \<le> 31)
    \<or> (gauss_mois annee = 4 \<and> 1 \<le> gauss_jour annee \<and> gauss_jour annee \<le> 25))
   \<and> (1 \<le> annee \<and> annee \<le> 9999 \<longrightarrow>
        calculer_paques annee = Inr (Date annee (gauss_mois annee) (gauss_jour annee)))
   \<and> (annee < 1 \<or> 9999 < annee \<longrightarrow> (\<exists>e. calculer_paques annee = Inl e))"
  using gauss_mois_jour[of annee] paques_valide[of annee] paques_hors_limites[of annee]
  by auto

theorem calculer_paques_totale_witness:
  "(1::int) \<le> 2025 \<and> (2025::int) \<le> 9999 \<and> gauss_mois 2025 = 4 \<and> gauss_jour 2025 = 20
   \<and> calculer_paques 2025 = Inr (Date 2025 4 20)
   \<and> (9999::int) < 12000 \<and> (\<exists>e. calculer_paques 12000 = Inl e)"
  using calculer_paques_totale[of 2025] calculer_paques_totale[of 12000]
  by (simp add: gauss_2025)

theorem calculer_paques_an_10000:
  "calculer_paques 10000 = Inl (ValueError Date_hors_limites)"
  by (simp add: calculer_paques_gauss gauss_10000 mk_date_def dans_int_c_def valid_date_def)

subsection \<open>The year check\<close>

lemma boucle_periodes_Inr:
  "\<exists>t' c'. boucle_periodes jt a ps t c = (Inr t', c')"
proof (induction ps arbitrary: t c)
  case Nil
  show ?case by (simp add: retour_def pur_def)
next
  case (Cons p ps)
  obtain r c1 where r: "jours_hors_de_periode jt a p c = (r, c1)"
    by (cases "jours_hors_de_periode jt a p c") auto
  show ?case
  proof (cases r)
    case (Inl e)
    with r Cons.IH[of t c1] show ?thesis by simp
  next
    case (Inr x)
    with r Cons.IH[of "t + x" c1] show ?thesis by simp
  qed
qed

lemma hors_periode_dans_bornes:
  assumes "ANNEE_MIN \<le> annee" "annee \<le> ANNEE_MAX"
  shows "\<exists>n c'. get_jours_hors_periode_principale db u annee c = (Inr n, c')"
proof -
  let ?jt = "case parametres_annee db (u, annee) of Some j \<Rightarrow> j | None \<Rightarrow> ''ouvres''"
  obtain t c' where "boucle_periodes ?jt annee (periodes_filtrees db u annee ''annuel'') 0 c
      = (Inr t, c')"
    using boucle_periodes_Inr by blast
  then show ?thesis using assms
    by (simp add: get_jours_hors_periode_principale_def Let_def puis_def retour_def pur_def)
qed

lemma hors_periode_hors_bornes:
  assumes "annee < ANNEE_MIN \<or> ANNEE_MAX < annee"
  shows "get_jours_hors_periode_principale db u annee c = (Inl (ValueError (Annee_invalide annee)), c)"
  using assms by (simp add: get_jours_hors_periode_principale_def lever_def pur_def)

text \<open>
  Claim C7.  \<open>get_jours_hors_periode_principale\<close> raises the invalid-year
  \<open>ValueError\<close> if and only if the year lies outside 2020..2100, whatever the data
  and the cache; outside the bounds it raises it for that year before anything else is
  done, and \<open>calculer_fractionnement_complet\<close> raises it too; inside the bounds the call
  returns an integer and raises nothing.  Any exception
  \<open>get_jours_hors_periode_principale\<close> raises is raised again by
  \<open>calculer_fractionnement_complet\<close>.
\<close>

theorem annee_invalide_ssi_hors_bornes:
  "((\<exists>a. fst (get_jours_hors_periode_principale db u annee c) = Inl (ValueError (Annee_invalide a)))
      = (annee < 2020 \<or> 2100 < annee))
   \<and> (annee < 2020 \<or> 2100 < annee \<longrightarrow>
        get_jours_hors_periode_principale db u annee c
          = (Inl (ValueError (Annee_invalide annee)), c)
        \<and> calculer_fractionnement_complet db u annee c
          = (Inl (ValueError (Annee_invalide annee)), c))
   \<and> (2020 \<le> annee \<and> annee \<le> 2100 \<longrightarrow>
        (\<exists>n. fst (get_jours_hors_periode_principale db u annee c) = Inr n))
   \<and> (\<forall>e. fst (get_jours_hors_periode_principale db u annee c) = Inl e \<longrightarrow>
          fst (calculer_fractionnement_complet db u annee c) = Inl e)"
proof -
  have hors: "annee < 2020 \<or> 2100 < annee \<Longrightarrow>
      get_jours_hors_periode_principale db u annee c
        = (Inl (ValueError (Annee_invalide annee)), c)"
    using hors_periode_hors_bornes[of annee db u c] by (simp add: ANNEE_MIN_def ANNEE_MAX_def)
  have dans: "2020 \<le> annee \<and> annee \<le> 2100 \<Longrightarrow>
      \<exists>n c'. get_jours_hors_periode_principale db u annee c = (Inr n, c')"
    using hors_periode_dans_bornes[of annee db u c] by (simp add: ANNEE_MIN_def ANNEE_MAX_def)
  have propage: "\<forall>e. fst (get_jours_hors_periode_principale db u annee c) = Inl e \<longrightarrow>
          fst (calculer_fractionnement_complet db u annee c) = Inl e"
    by (cases "get_jours_hors_periode_principale db u annee c")
       (auto simp: calculer_fractionnement_complet_def)
  have a: "(\<exists>a. fst (get_jours_hors_periode_principale db u annee c)
                = Inl (ValueError (Annee_invalide a))) = (annee < 2020 \<or> 2100 < annee)"
  proof (cases "annee < 2020 \<or> 2100 < annee")
    case True
    with hors show ?thesis by simp
  next
    case False
    then have "2020 \<le> annee \<and> annee \<le> 2100" by simp
    from dans[OF this] False show ?thesis by auto
  qed
  have b: "annee < 2020 \<or> 2100 < annee \<longrightarrow>
        get_jours_hors_periode_principale db u annee c
          = (Inl (ValueError (Annee_invalide annee)), c)
        \<and> calculer_fractionnement_complet db u annee c
          = (Inl (ValueError (Annee_invalide annee)), c)"
    using hors by (auto simp: calculer_fractionnement_complet_def)
  have d: "2020 \<le> annee \<and> annee \<le> 2100 \<longrightarrow>
        (\<exists>n. fst (get_jours_hors_periode_principale db u annee c) = Inr n)"
    using dans by auto
  from a b d propage show ?thesis by blast
qed

theorem annee_invalide_ssi_hors_bornes_witness:
  "(2019::int) < 2020
   \<and> get_jours_hors_periode_principale
        \<lparr>parametres_annee = (\<lambda>k. None), cycles_hebdomadaires = (\<lambda>k. None), periodes_conge = []\<rparr>
        0 2019 cache_vide = (Inl (ValueError (Annee_invalide 2019)), cache_vide)
   \<and> calculer_fractionnement_complet
        \<lparr>parametres_annee = (\<lambda>k. None), cycles_hebdomadaires = (\<lambda>k. None), periodes_conge = []\<rparr>
        0 2019 cache_vide = (Inl (ValueError (Annee_invalide 2019)), cache_vide)
   \<and> (2020::int) \<le> 2024 \<and> (2024::int) \<le> 2100
   \<and> (\<exists>n. fst (get_jours_hors_periode_principale
        \<lparr>parametres_annee = (\<lambda>k. None), cycles_hebdomadaires = (\<lambda>k. None), periodes_conge = []\<rparr>
        0 2024 cache_vide) = Inr n)"
  using annee_invalide_ssi_hors_bornes[of
          "\<lparr>parametres_annee = (\<lambda>k. None), cycles_hebdomadaires = (\<lambda>k. None), periodes_conge = []\<rparr>"
          0 2019 cache_vide]
        annee_invalide_ssi_hors_bornes[of
          "\<lparr>parametres_annee = (\<lambda>k. None), cycles_hebdomadaires = (\<lambda>k. None), periodes_conge = []\<rparr>"
          0 2024 cache_vide]
  by simp

subsection \<open>The cache\<close>

lemma cache_vide_coherent: "cache_coherent cache_vide"
  by (simp add: cache_coherent_def cache_vide_def)

lemma rend_pur: "rend (pur r) r"
  by (simp add: rend_def pur_def)

lemma rend_retour: "rend (retour x) (Inr x)"
  by (simp add: retour_def rend_pur)

lemma rend_lever: "rend (lever e) (Inl e)"
  by (simp add: lever_def rend_pur)

lemma rend_puis:
  assumes "rend m (Inr x)" "rend (f x) r"
  shows "rend (puis m f) r"
  unfolding rend_def
proof (intro allI impI)
  fix c :: cache
  assume c: "cache_coherent c"
  obtain r1 c1 where m: "m c = (r1, c1)" by (cases "m c") auto
  from assms(1) c m have "r1 = Inr x" "cache_coherent c1" by (auto simp: rend_def)
  with assms(2) m show "fst (puis m f c) = r \<and> cache_coherent (snd (puis m f c))"
    by (simp add: puis_def rend_def)
qed

lemma rend_puis_Inl:
  assumes "rend m (Inl e)"
  shows "rend (puis m f) (Inl e)"
  unfolding rend_def
proof (intro allI impI)
  fix c :: cache
  assume c: "cache_coherent c"
  obtain r1 c1 where m: "m c = (r1, c1)" by (cases "m c") auto
  from assms c m have "r1 = Inl e" "cache_coherent c1" by (auto simp: rend_def)
  with m show "fst (puis m f c) = Inl e \<and> cache_coherent (snd (puis m f c))"
    by (simp add: puis_def)
qed

lemma rend_get_jours_feries: "rend (get_jours_feries annee) (jours_feries_calcules annee)"
  unfolding rend_def
proof (intro allI impI)
  fix c :: cache
  assume c: "cache_coherent c"
  show "fst (get_jours_feries annee c) = jours_feries_calcules annee
        \<and> cache_coherent (snd (get_jours_feries annee c))"
  proof (cases "c annee")
    case (Some jf)
    with c have "jours_feries_calcules annee = Inr jf" by (simp add: cache_coherent_def)
    with Some c show ?thesis by (simp add: get_jours_feries_def)
  next
    case None
    show ?thesis
    proof (cases "jours_feries_calcules annee")
      case (Inl e)
      with None c show ?thesis by (simp add: get_jours_feries_def)
    next
      case (Inr jf)
      with c have "cache_coherent (c(annee \<mapsto> jf))" by (simp add: cache_coherent_def)
      with None Inr show ?thesis by (simp add: get_jours_feries_def)
    qed
  qed
qed

lemma rend_valeur:
  assumes "rend m r" "cache_coherent c"
  shows "fst (m c) = r"
  using assms by (simp add: rend_def)

subsection \<open>The counting loop on one day and on two consecutive days\<close>

declare boucle_comptage.simps [simp del]

lemma date_le_refl: "date_le d d"
  by (simp add: date_le_def)

lemma lendemain_pas_avant: "\<not> date_le (lendemain d) d"
  by (simp add: date_le_def lendemain_def)

lemma date_le_lendemain: "date_le d (lendemain d)"
  by (simp add: date_le_def lendemain_def)

lemma lendemain_lendemain_pas_avant: "\<not> date_le (lendemain (lendemain d)) (lendemain d)"
  by (rule lendemain_pas_avant)

lemma boucle_finie: "\<not> date_le d fin \<Longrightarrow> boucle_comptage p jf d fin n = Inr n"
  by (simp add: boucle_comptage.simps[of p jf d fin n])

lemma boucle_pas:
  "date_le d fin \<Longrightarrow> d \<noteq> date_max \<Longrightarrow>
     boucle_comptage p jf d fin n
       = boucle_comptage p jf (lendemain d) fin (if p d \<and> d \<notin> set jf then n + 1 else n)"
  by (simp add: boucle_comptage.simps[of p jf d fin n] date_plus_un_jour_def)

lemma boucle_deborde:
  "date_le date_max fin \<Longrightarrow> boucle_comptage p jf date_max fin n = Inl OverflowError"
  by (simp add: boucle_comptage.simps[of p jf date_max fin n] date_plus_un_jour_def)

lemma boucle_un_jour:
  "d \<noteq> date_max \<Longrightarrow>
     boucle_comptage p jf d d n = Inr (if p d \<and> d \<notin> set jf then n + 1 else n)"
  by (simp add: boucle_pas date_le_refl boucle_finie lendemain_pas_avant)

lemma boucle_deux_jours:
  "d \<noteq> date_max \<Longrightarrow> lendemain d \<noteq> date_max \<Longrightarrow>
     boucle_comptage p jf d (lendemain d) n
       = Inr (n + (if p d \<and> d \<notin> set jf then 1 else 0)
                + (if p (lendemain d) \<and> lendemain d \<notin> set jf then 1 else 0))"
  by (simp add: boucle_pas date_le_lendemain date_le_refl boucle_finie lendemain_pas_avant)

subsection \<open>\<open>compter_jours_periode\<close> in closed form\<close>

lemma rend_feries:
  assumes "exclure \<longrightarrow> jours_feries_calcules annee = Inr jf"
  shows "rend (if exclure then get_jours_feries annee else retour [])
              (Inr (if exclure then jf else []))"
  using assms rend_get_jours_feries[of annee] by (auto simp: rend_retour)

lemma rend_compter_jours_ouvres:
  assumes "exclure \<longrightarrow> jours_feries_calcules annee = Inr jf"
  shows "rend (compter_jours_ouvres debut fin exclure (Some annee))
              (boucle_comptage est_jour_ouvre (if exclure then jf else []) debut fin 0)"
  unfolding compter_jours_ouvres_def Let_def option.case
  by (rule rend_puis[OF rend_feries[OF assms]]) (rule rend_pur)

lemma rend_compter_jours_ouvrables:
  assumes "exclure \<longrightarrow> jours_feries_calcules annee = Inr jf"
  shows "rend (compter_jours_ouvrables debut fin exclure (Some annee))
              (boucle_comptage est_jour_ouvrable (if exclure then jf else []) debut fin 0)"
  unfolding compter_jours_ouvrables_def Let_def option.case
  by (rule rend_puis[OF rend_feries[OF assms]]) (rule rend_pur)

lemma jour_compte_pred:
  "(if jt = ''ouvrables'' then est_jour_ouvrable else est_jour_ouvre) = jour_compte jt"
  by (auto simp: jour_compte_def)

lemma jour_est_compte_eq:
  "jour_est_compte jt exclure annee d =
     (if exclure \<and> jour_compte jt d
      then puis (get_jours_feries annee)
             (\<lambda>jours_feries. retour (if d \<in> set jours_feries then False else jour_compte jt d))
      else retour (jour_compte jt d))"
  unfolding jour_est_compte_def Let_def jour_compte_def by (rule refl)

lemma rend_jour_est_compte:
  assumes "exclure \<longrightarrow> jours_feries_calcules annee = Inr jf"
  shows "rend (jour_est_compte jt exclure annee d)
              (Inr (jour_compte jt d \<and> d \<notin> set (if exclure then jf else [])))"
proof (cases "exclure \<and> jour_compte jt d")
  case True
  with assms have jf: "rend (get_jours_feries annee) (Inr jf)"
    using rend_get_jours_feries[of annee] by simp
  have "rend (puis (get_jours_feries annee)
           (\<lambda>jours_feries. retour (if d \<in> set jours_feries then False else jour_compte jt d)))
         (Inr (if d \<in> set jf then False else jour_compte jt d))"
    by (rule rend_puis[OF jf]) (rule rend_retour)
  moreover have "jour_est_compte jt exclure annee d
      = puis (get_jours_feries annee)
           (\<lambda>jours_feries. retour (if d \<in> set jours_feries then False else jour_compte jt d))"
    using True by (simp add: jour_est_compte_eq)
  moreover from True
  have "(jour_compte jt d \<and> d \<notin> set (if exclure then jf else []))
          = (if d \<in> set jf then False else jour_compte jt d)"
    by auto
  ultimately show ?thesis by (simp only:)
next
  case False
  then have "jour_est_compte jt exclure annee d = retour (jour_compte jt d)"
    by (auto simp: jour_est_compte_eq)
  moreover from False
  have "(jour_compte jt d \<and> d \<notin> set (if exclure then jf else [])) = jour_compte jt d"
    by auto
  ultimately show ?thesis by (simp only: rend_retour)
qed

lemma rend_compter_jours_periode:
  assumes jf: "exclure \<longrightarrow> jours_feries_calcules annee = Inr jf"
      and n: "boucle_comptage (jour_compte jt) (if exclure then jf else []) debut fin 0 = Inr n"
  shows "rend (compter_jours_periode debut fin jt exclure (Some annee) dt ft)
           (Inr (max 0 (of_int n
              - (if jour_compte jt debut \<and> debut \<notin> set (if exclure then jf else [])
                    \<and> dt = ''apres_midi'' then 1 / 2 else 0)
              - (if jour_compte jt fin \<and> fin \<notin> set (if exclure then jf else [])
                    \<and> ft = ''matin'' then 1 / 2 else 0))))"
proof -
  have pleins: "rend (if jt = ''ouvrables''
                      then compter_jours_ouvrables debut fin exclure (Some annee)
                      else compter_jours_ouvres debut fin exclure (Some annee)) (Inr n)"
    using rend_compter_jours_ouvres[OF jf, of debut fin]
          rend_compter_jours_ouvrables[OF jf, of debut fin] n
    by (cases "jt = ''ouvrables''") (simp_all add: jour_compte_pred[symmetric])
  define bd where "bd = (jour_compte jt debut \<and> debut \<notin> set (if exclure then jf else []))"
  define bf where "bf = (jour_compte jt fin \<and> fin \<notin> set (if exclure then jf else []))"
  have fin: "rend (retour (max 0 ((if bf \<and> ft = ''matin''
                     then (if bd \<and> dt = ''apres_midi'' then of_int n - 1 / 2 else of_int n) - 1 / 2
                     else (if bd \<and> dt = ''apres_midi'' then of_int n - 1 / 2 else of_int n))::rat)))
              (Inr (max 0 (of_int n - (if bd \<and> dt = ''apres_midi'' then 1 / 2 else 0)
                             - (if bf \<and> ft = ''matin'' then 1 / 2 else 0))))"
    by (cases "bd \<and> dt = ''apres_midi''"; cases "bf \<and> ft = ''matin''")
       (auto simp: rend_retour)
  show ?thesis
    unfolding compter_jours_periode_def Let_def option.case
    apply (rule rend_puis[OF pleins])
    apply (rule rend_puis[OF rend_jour_est_compte[OF jf]])
    apply (rule rend_puis[OF rend_jour_est_compte[OF jf]])
    apply (unfold conj_assoc)
    apply (rule fin[unfolded bd_def bf_def conj_assoc])
    done
qed

subsection \<open>Concrete calendars\<close>

lemma date_plus_jours_numeral:
  "date_plus_jours d (numeral k)
     = bind_e (date_plus_un_jour d) (\<lambda>d'. date_plus_jours d' (pred_numeral k))"
  by (simp add: numeral_eq_Suc)

lemma date_plus_jours_un:
  "date_plus_jours d 1 = date_plus_un_jour d"
  by (cases "date_plus_un_jour d") (simp_all add: bind_e_def)

lemmas calendrier_simps =
  date_plus_jours_numeral date_plus_jours_un bind_e_def date_plus_un_jour_def lendemain_def
  days_in_month_def is_leap_def date_max_def mk_date_def dans_int_c_def valid_date_def

lemma fixes_2024:
  "get_jours_feries_fixes 2024
     = Inr [Date 2024 1 1, Date 2024 5 1, Date 2024 5 8, Date 2024 7 14, Date 2024 8 15,
            Date 2024 11 1, Date 2024 11 11, Date 2024 12 25]"
  by (simp add: get_jours_feries_fixes_def calendrier_simps)

lemma paques_2024: "calculer_paques 2024 = Inr (Date 2024 3 31)"
  using paques_valide[of 2024] by (simp add: gauss_2024)

lemma paques_2024_1: "date_plus_un_jour (Date 2024 3 31) = Inr (Date 2024 4 1)"
  by (simp add: calendrier_simps)

lemma paques_2024_39: "date_plus_jours (Date 2024 3 31) 39 = Inr (Date 2024 5 9)"
  by (simp add: calendrier_simps)

lemma paques_2024_50: "date_plus_jours (Date 2024 3 31) 50 = Inr (Date 2024 5 20)"
  by (simp add: calendrier_simps)

lemma feries_2024:
  "jours_feries_calcules 2024
     = Inr [Date 2024 1 1, Date 2024 3 31, Date 2024 4 1, Date 2024 5 1, Date 2024 5 8,
            Date 2024 5 9, Date 2024 5 20, Date 2024 7 14, Date 2024 8 15, Date 2024 11 1,
            Date 2024 11 11, Date 2024 12 25]"
  by (simp add: jours_feries_calcules_def fixes_2024 paques_2024 paques_2024_1 paques_2024_39
        paques_2024_50 bind_e_def sorted_dates_def date_le_def)

lemmas weekday_simps =
  weekday_def toordinal_def days_before_year_def days_before_month_def is_leap_def
  est_jour_ouvre_def est_jour_ouvrable_def jour_compte_def

lemma weekday_2024_07_01: "weekday (Date 2024 7 1) = 0"
  by (simp add: weekday_simps)

lemma weekday_2024_07_02: "weekday (Date 2024 7 2) = 1"
  by (simp add: weekday_simps)

lemma weekday_date_max: "weekday date_max = 4"
  by (simp add: weekday_simps date_max_def)

subsection \<open>Half-days\<close>

lemma compter_jours_periode_annee:
  "compter_jours_periode d f jt e ao dt ft
     = compter_jours_periode d f jt e (Some (case ao of None \<Rightarrow> year d | Some a \<Rightarrow> a)) dt ft"
  unfolding compter_jours_periode_def Let_def option.case by (rule refl)

lemma valeur_compter_jours_periode:
  assumes "cache_coherent c"
      and "exclure \<longrightarrow> jours_feries_calcules (case ao of None \<Rightarrow> year debut | Some a \<Rightarrow> a) = Inr jf"
      and "boucle_comptage (jour_compte jt) (if exclure then jf else []) debut fin 0 = Inr n"
  shows "fst (compter_jours_periode debut fin jt exclure ao dt ft c)
           = Inr (max 0 (of_int n
              - (if jour_compte jt debut \<and> debut \<notin> set (if exclure then jf else [])
                    \<and> dt = ''apres_midi'' then 1 / 2 else 0)
              - (if jour_compte jt fin \<and> fin \<notin> set (if exclure then jf else [])
                    \<and> ft = ''matin'' then 1 / 2 else 0)))"
  using rend_valeur[OF rend_compter_jours_periode[OF assms(2) assms(3)] assms(1)]
  by (simp only: compter_jours_periode_annee[of debut fin jt exclure ao])

lemma rend_compter_jours_periode_Inl:
  assumes jf: "exclure \<longrightarrow> jours_feries_calcules annee = Inr jf"
      and n: "boucle_comptage (jour_compte jt) (if exclure then jf else []) debut fin 0 = Inl e"
  shows "rend (compter_jours_periode debut fin jt exclure (Some annee) dt ft) (Inl e)"
proof -
  have pleins: "rend (if jt = ''ouvrables''
                      then compter_jours_ouvrables debut fin exclure (Some annee)
                      else compter_jours_ouvres debut fin exclure (Some annee)) (Inl e)"
    using rend_compter_jours_ouvres[OF jf, of debut fin]
          rend_compter_jours_ouvrables[OF jf, of debut fin] n
    by (cases "jt = ''ouvrables''") (simp_all add: jour_compte_pred[symmetric])
  show ?thesis
    unfolding compter_jours_periode_def Let_def option.case
    by (rule rend_puis_Inl[OF pleins])
qed

lemma feries_9999:
  "jours_feries_calcules 9999
     = Inr [Date 9999 1 1, Date 9999 3 28, Date 9999 3 29, Date 9999 5 1, Date 9999 5 6,
            Date 9999 5 8, Date 9999 5 17, Date 9999 7 14, Date 9999 8 15, Date 9999 11 1,
            Date 9999 11 11, Date 9999 12 25]"
proof -
  have g: "gauss_mois 9999 = 3 \<and> gauss_jour 9999 = 28"
  proof -
    have h: "gauss_h 9999 = 3" by (simp add: gauss_h_def)
    have l: "gauss_l 9999 = 3" by (simp add: gauss_l_def h)
    have m: "gauss_m 9999 = 0" by (simp add: gauss_m_def h l)
    show ?thesis by (simp add: gauss_mois_def gauss_jour_def h l m)
  qed
  have f: "get_jours_feries_fixes 9999
     = Inr [Date 9999 1 1, Date 9999 5 1, Date 9999 5 8, Date 9999 7 14, Date 9999 8 15,
            Date 9999 11 1, Date 9999 11 11, Date 9999 12 25]"
    by (simp add: get_jours_feries_fixes_def calendrier_simps)
  have p: "calculer_paques 9999 = Inr (Date 9999 3 28)"
    using paques_valide[of 9999] by (simp add: g)
  have p1: "date_plus_un_jour (Date 9999 3 28) = Inr (Date 9999 3 29)"
    by (simp add: calendrier_simps)
  have p39: "date_plus_jours (Date 9999 3 28) 39 = Inr (Date 9999 5 6)"
    by (simp add: calendrier_simps)
  have p50: "date_plus_jours (Date 9999 3 28) 50 = Inr (Date 9999 5 17)"
    by (simp add: calendrier_simps)
  show ?thesis
    by (simp add: jours_feries_calcules_def f p p1 p39 p50 bind_e_def sorted_dates_def
          date_le_def)
qed

text \<open>
  Claim C2.  Let \<open>D\<close> be any day but \<open>date.max\<close> that is a counted day under the
  convention \<open>jt\<close> and not a holiday of the list excluded (the holidays of the year of
  \<open>D\<close>, or of the year given, when \<open>exclure_feries\<close> is set; none otherwise).  Then, on
  any coherent cache, \<open>compter_jours_periode\<close> with start = end = \<open>D\<close> returns 1/2 for
  morning/morning, 1/2 for afternoon/afternoon and 1 for morning/afternoon; and when the
  next day is not \<open>date.max\<close> and is counted too, the period from \<open>D\<close> (afternoon) to the
  next day (morning) counts 1.
\<close>

theorem compter_jours_periode_demi_journees:
  assumes "cache_coherent c"
      and "exclure \<longrightarrow> jours_feries_calcules (case ao of None \<Rightarrow> year D | Some a \<Rightarrow> a) = Inr jf"
      and "D \<noteq> date_max"
      and "jour_compte jt D"
      and "D \<notin> set (if exclure then jf else [])"
  shows "fst (compter_jours_periode D D jt exclure ao ''matin'' ''matin'' c) = Inr (1 / 2)
     \<and> fst (compter_jours_periode D D jt exclure ao ''apres_midi'' ''apres_midi'' c) = Inr (1 / 2)
     \<and> fst (compter_jours_periode D D jt exclure ao ''matin'' ''apres_midi'' c) = Inr 1
     \<and> (lendemain D \<noteq> date_max \<and> jour_compte jt (lendemain D)
          \<and> lendemain D \<notin> set (if exclure then jf else [])
        \<longrightarrow> fst (compter_jours_periode D (lendemain D) jt exclure ao ''apres_midi'' ''matin'' c)
              = Inr 1)"
proof -
  have un: "boucle_comptage (jour_compte jt) (if exclure then jf else []) D D 0 = Inr 1"
    using assms(3-5) by (simp add: boucle_un_jour)
  have a: "fst (compter_jours_periode D D jt exclure ao ''matin'' ''matin'' c) = Inr (1 / 2)"
    using valeur_compter_jours_periode[OF assms(1) assms(2) un, where dt = "''matin''" and ft = "''matin''"]
          assms(4,5) by simp
  have b: "fst (compter_jours_periode D D jt exclure ao ''apres_midi'' ''apres_midi'' c)
             = Inr (1 / 2)"
    using valeur_compter_jours_periode[OF assms(1) assms(2) un, where dt = "''apres_midi''" and ft = "''apres_midi''"]
          assms(4,5) by simp
  have d: "fst (compter_jours_periode D D jt exclure ao ''matin'' ''apres_midi'' c) = Inr 1"
    using valeur_compter_jours_periode[OF assms(1) assms(2) un, where dt = "''matin''" and ft = "''apres_midi''"]
          assms(4,5) by simp
  have e: "fst (compter_jours_periode D (lendemain D) jt exclure ao ''apres_midi'' ''matin'' c)
             = Inr 1"
    if l: "lendemain D \<noteq> date_max \<and> jour_compte jt (lendemain D)
            \<and> lendemain D \<notin> set (if exclure then jf else [])"
  proof -
    have deux: "boucle_comptage (jour_compte jt) (if exclure then jf else []) D (lendemain D) 0
                  = Inr 2"
      using assms(3-5) l by (simp add: boucle_deux_jours)
    show ?thesis
      using valeur_compter_jours_periode[OF assms(1) assms(2) deux, where dt = "''apres_midi''" and ft = "''matin''"]
            assms(4,5) l by simp
  qed
  from a b d e show ?thesis by blast
qed

theorem compter_jours_periode_demi_journees_witness:
  "cache_coherent cache_vide
   \<and> jours_feries_calcules 2024
       = Inr [Date 2024 1 1, Date 2024 3 31, Date 2024 4 1, Date 2024 5 1, Date 2024 5 8,
              Date 2024 5 9, Date 2024 5 20, Date 2024 7 14, Date 2024 8 15, Date 2024 11 1,
              Date 2024 11 11, Date 2024 12 25]
   \<and> Date 2024 7 1 \<noteq> date_max \<and> jour_compte ''ouvres'' (Date 2024 7 1)
   \<and> Date 2024 7 2 \<noteq> date_max \<and> jour_compte ''ouvres'' (Date 2024 7 2)
   \<and> lendemain (Date 2024 7 1) = Date 2024 7 2
   \<and> fst (compter_jours_periode (Date 2024 7 1) (Date 2024 7 1) ''ouvres'' True None
            ''matin'' ''matin'' cache_vide) = Inr (1 / 2)
   \<and> fst (compter_jours_periode (Date 2024 7 1) (Date 2024 7 1) ''ouvres'' True None
            ''apres_midi'' ''apres_midi'' cache_vide) = Inr (1 / 2)
   \<and> fst (compter_jours_periode (Date 2024 7 1) (Date 2024 7 1) ''ouvres'' True None
            ''matin'' ''apres_midi'' cache_vide) = Inr 1
   \<and> fst (compter_jours_periode (Date 2024 7 1) (Date 2024 7 2) ''ouvres'' True None
            ''apres_midi'' ''matin'' cache_vide) = Inr 1"
proof -
  have l: "lendemain (Date 2024 7 1) = Date 2024 7 2"
    by (simp add: lendemain_def days_in_month_def)
  have j1: "jour_compte ''ouvres'' (Date 2024 7 1)" by (simp add: weekday_simps)
  have j2: "jour_compte ''ouvres'' (Date 2024 7 2)" by (simp add: weekday_simps)
  have m: "Date 2024 7 1 \<noteq> date_max" "Date 2024 7 2 \<noteq> date_max" by (simp_all add: date_max_def)
  show ?thesis
    using compter_jours_periode_demi_journees[where c = cache_vide and exclure = True
            and ao = None and D = "Date 2024 7 1" and jt = "''ouvres''" and jf =
            "[Date 2024 1 1, Date 2024 3 31, Date 2024 4 1, Date 2024 5 1, Date 2024 5 8,
              Date 2024 5 9, Date 2024 5 20, Date 2024 7 14, Date 2024 8 15, Date 2024 11 1,
              Date 2024 11 11, Date 2024 12 25]"]
    by (simp add: cache_vide_coherent feries_2024 l j1 j2 m)
qed

theorem compter_jours_periode_date_max:
  "weekday (Date 9999 12 31) = 4
   \<and> jour_compte ''ouvres'' (Date 9999 12 31)
   \<and> fst (get_jours_feries 9999 cache_vide)
       = Inr [Date 9999 1 1, Date 9999 3 28, Date 9999 3 29, Date 9999 5 1, Date 9999 5 6,
              Date 9999 5 8, Date 9999 5 17, Date 9999 7 14, Date 9999 8 15, Date 9999 11 1,
              Date 9999 11 11, Date 9999 12 25]
   \<and> fst (compter_jours_periode (Date 9999 12 31) (Date 9999 12 31) ''ouvres'' True None
            ''matin'' ''apres_midi'' cache_vide) = Inl OverflowError
   \<and> fst (compter_jours_periode (Date 9999 12 31) (Date 9999 12 31) ''ouvres'' False None
            ''matin'' ''apres_midi'' cache_vide) = Inl OverflowError"
proof -
  have w: "weekday (Date 9999 12 31) = 4" by (simp add: weekday_simps)
  then have j: "jour_compte ''ouvres'' (Date 9999 12 31)"
    by (simp add: jour_compte_def est_jour_ouvre_def)
  have g: "fst (get_jours_feries 9999 cache_vide) = jours_feries_calcules 9999"
    by (rule rend_valeur[OF rend_get_jours_feries cache_vide_coherent])
  have b: "boucle_comptage (jour_compte ''ouvres'') jf (Date 9999 12 31) (Date 9999 12 31) 0
             = Inl OverflowError" for jf
    using boucle_deborde[of date_max "jour_compte ''ouvres''" jf 0]
    by (simp add: date_le_refl date_max_def)
  have t: "rend (compter_jours_periode (Date 9999 12 31) (Date 9999 12 31) ''ouvres'' True
                   (Some 9999) ''matin'' ''apres_midi'') (Inl OverflowError)"
    by (rule rend_compter_jours_periode_Inl[where jf = "[Date 9999 1 1, Date 9999 3 28,
              Date 9999 3 29, Date 9999 5 1, Date 9999 5 6, Date 9999 5 8, Date 9999 5 17,
              Date 9999 7 14, Date 9999 8 15, Date 9999 11 1, Date 9999 11 11,
              Date 9999 12 25]"])
       (simp_all add: feries_9999 b)
  have f: "rend (compter_jours_periode (Date 9999 12 31) (Date 9999 12 31) ''ouvres'' False
                   (Some 9999) ''matin'' ''apres_midi'') (Inl OverflowError)"
    by (rule rend_compter_jours_periode_Inl[where jf = "[]"]) (simp_all add: b)
  have v: "fst (compter_jours_periode (Date 9999 12 31) (Date 9999 12 31) ''ouvres'' True None
                  ''matin'' ''apres_midi'' cache_vide) = Inl OverflowError"
          "fst (compter_jours_periode (Date 9999 12 31) (Date 9999 12 31) ''ouvres'' False None
                  ''matin'' ''apres_midi'' cache_vide) = Inl OverflowError"
    using rend_valeur[OF t cache_vide_coherent] rend_valeur[OF f cache_vide_coherent]
    by (simp_all add: compter_jours_periode_annee[of _ _ _ _ None])
  from w j g v show ?thesis by (simp add: feries_9999)
qed

subsection \<open>The loop over the periods\<close>

lemma rend_boucle_periodes_Nil: "rend (boucle_periodes jt annee [] t) (Inr t)"
  by (simp add: rend_retour)

lemma rend_boucle_periodes_Cons:
  assumes "rend (jours_hors_de_periode jt annee p) (Inr x)"
      and "rend (boucle_periodes jt annee ps (t + x)) r"
  shows "rend (boucle_periodes jt annee (p # ps) t) r"
  unfolding rend_def
proof (intro allI impI)
  fix c :: cache
  assume c: "cache_coherent c"
  obtain r1 c1 where m: "jours_hors_de_periode jt annee p c = (r1, c1)"
    by (cases "jours_hors_de_periode jt annee p c") auto
  from assms(1) c m have "r1 = Inr x" "cache_coherent c1" by (auto simp: rend_def)
  with assms(2) m
  show "fst (boucle_periodes jt annee (p # ps) t c) = r
        \<and> cache_coherent (snd (boucle_periodes jt annee (p # ps) t c))"
    by (simp add: rend_def)
qed

lemma rend_boucle_periodes_Cons_Inl:
  assumes "rend (jours_hors_de_periode jt annee p) (Inl e)"
      and "rend (boucle_periodes jt annee ps t) r"
  shows "rend (boucle_periodes jt annee (p # ps) t) r"
  unfolding rend_def
proof (intro allI impI)
  fix c :: cache
  assume c: "cache_coherent c"
  obtain r1 c1 where m: "jours_hors_de_periode jt annee p c = (r1, c1)"
    by (cases "jours_hors_de_periode jt annee p c") auto
  from assms(1) c m have "r1 = Inl e" "cache_coherent c1" by (auto simp: rend_def)
  with assms(2) m
  show "fst (boucle_periodes jt annee (p # ps) t c) = r
        \<and> cache_coherent (snd (boucle_periodes jt annee (p # ps) t c))"
    by (simp add: rend_def)
qed

lemma rend_hors_periode:
  assumes "2020 \<le> annee" "annee \<le> 2100"
      and "rend (boucle_periodes
                   (case parametres_annee db (u, annee) of Some j \<Rightarrow> j | None \<Rightarrow> ''ouvres'')
                   annee (periodes_filtrees db u annee ''annuel'') 0) (Inr t)"
  shows "rend (get_jours_hors_periode_principale db u annee) (Inr (int_of_decimal t))"
proof -
  have "rend (puis (boucle_periodes
                   (case parametres_annee db (u, annee) of Some j \<Rightarrow> j | None \<Rightarrow> ''ouvres'')
                   annee (periodes_filtrees db u annee ''annuel'') 0)
                (\<lambda>total. retour (int_of_decimal total))) (Inr (int_of_decimal t))"
    by (rule rend_puis[OF assms(3)]) (rule rend_retour)
  with assms(1,2) show ?thesis
    by (simp add: get_jours_hors_periode_principale_def ANNEE_MIN_def ANNEE_MAX_def Let_def)
qed

lemma fractionnement_complet_valeur:
  assumes "fst (get_jours_hors_periode_principale db u annee c) = Inr n"
  shows "fst (calculer_fractionnement_complet db u annee c)
           = Inr \<lparr>jours_hors_periode = n,
                   jours_fractionnement = calculer_jours_fractionnement n,
                   res_annee = annee\<rparr>"
  using assms
  by (cases "get_jours_hors_periode_principale db u annee c")
     (simp add: calculer_fractionnement_complet_def)

subsection \<open>The first days of November 2024\<close>

lemma jour_compte_semaine: "weekday d < 5 \<Longrightarrow> jour_compte jt d"
  by (simp add: jour_compte_def est_jour_ouvre_def est_jour_ouvrable_def)

lemma novembre_2024:
  "weekday (Date 2024 11 4) = 0" "weekday (Date 2024 11 5) = 1" "weekday (Date 2024 11 6) = 2"
  "weekday (Date 2024 11 7) = 3" "weekday (Date 2024 11 8) = 4" "weekday (Date 2024 11 9) = 5"
  by (simp_all add: weekday_simps)

lemma novembre_2024_comptes:
  "jour_compte jt (Date 2024 11 4)" "jour_compte jt (Date 2024 11 5)"
  "jour_compte jt (Date 2024 11 6)" "jour_compte jt (Date 2024 11 7)"
  "jour_compte jt (Date 2024 11 8)"
  by (simp_all add: jour_compte_semaine novembre_2024)

lemma boucle_4_8_novembre_2024:
  "boucle_comptage (jour_compte jt)
     [Date 2024 1 1, Date 2024 3 31, Date 2024 4 1, Date 2024 5 1, Date 2024 5 8,
      Date 2024 5 9, Date 2024 5 20, Date 2024 7 14, Date 2024 8 15, Date 2024 11 1,
      Date 2024 11 11, Date 2024 12 25]
     (Date 2024 11 4) (Date 2024 11 8) 0 = Inr 5"
  by (simp add: boucle_pas boucle_finie date_le_def date_max_def lendemain_def days_in_month_def
        novembre_2024_comptes)

lemma boucle_8_novembre_2024:
  "boucle_comptage (jour_compte jt)
     [Date 2024 1 1, Date 2024 3 31, Date 2024 4 1, Date 2024 5 1, Date 2024 5 8,
      Date 2024 5 9, Date 2024 5 20, Date 2024 7 14, Date 2024 8 15, Date 2024 11 1,
      Date 2024 11 11, Date 2024 12 25]
     (Date 2024 11 8) (Date 2024 11 8) 0 = Inr 1"
  by (simp add: boucle_un_jour date_max_def novembre_2024_comptes)

lemma rend_periode_4_8_novembre:
  assumes "pc_date_debut p = Date 2024 11 4" "pc_debut_type p = ''matin''"
          "pc_date_fin p = Date 2024 11 8" "pc_fin_type p = ''matin''"
  shows "rend (jours_hors_de_periode jt 2024 p) (Inr (9 / 2))"
proof -
  have e: "jours_hors_de_periode jt 2024 p
             = compter_jours_periode (Date 2024 11 4) (Date 2024 11 8) jt True (Some 2024)
                 ''matin'' ''matin''"
    using assms by (simp add: jours_hors_de_periode_def Let_def)
  have "True \<longrightarrow> jours_feries_calcules 2024
     = Inr [Date 2024 1 1, Date 2024 3 31, Date 2024 4 1, Date 2024 5 1, Date 2024 5 8,
            Date 2024 5 9, Date 2024 5 20, Date 2024 7 14, Date 2024 8 15, Date 2024 11 1,
            Date 2024 11 11, Date 2024 12 25]"
    by (simp add: feries_2024)
  from rend_compter_jours_periode[OF this, of jt "Date 2024 11 4" "Date 2024 11 8" 5
         "''matin''" "''matin''"]
  show ?thesis
    by (simp add: e boucle_4_8_novembre_2024 novembre_2024_comptes)
qed

lemma rend_periode_8_novembre:
  assumes "pc_date_debut p = Date 2024 11 8" "pc_debut_type p = ''apres_midi''"
          "pc_date_fin p = Date 2024 11 8" "pc_fin_type p = ''apres_midi''"
  shows "rend (jours_hors_de_periode jt 2024 p) (Inr (1 / 2))"
proof -
  have e: "jours_hors_de_periode jt 2024 p
             = compter_jours_periode (Date 2024 11 8) (Date 2024 11 8) jt True (Some 2024)
                 ''apres_midi'' ''apres_midi''"
    using assms by (simp add: jours_hors_de_periode_def Let_def)
  have "True \<longrightarrow> jours_feries_calcules 2024
     = Inr [Date 2024 1 1, Date 2024 3 31, Date 2024 4 1, Date 2024 5 1, Date 2024 5 8,
            Date 2024 5 9, Date 2024 5 20, Date 2024 7 14, Date 2024 8 15, Date 2024 11 1,
            Date 2024 11 11, Date 2024 12 25]"
    by (simp add: feries_2024)
  from rend_compter_jours_periode[OF this, of jt "Date 2024 11 8" "Date 2024 11 8" 1
         "''apres_midi''" "''apres_midi''"]
  show ?thesis
    by (simp add: e boucle_8_novembre_2024 novembre_2024_comptes)
qed

subsection \<open>The scenario of November 2024\<close>

lemma scenario_une_periode:
  assumes "pc_date_debut p1 = Date 2024 11 4" "pc_debut_type p1 = ''matin''"
          "pc_date_fin p1 = Date 2024 11 8" "pc_fin_type p1 = ''matin''"
      and "periodes_filtrees db u 2024 ''annuel'' = [p1]"
  shows "rend (get_jours_hors_periode_principale db u 2024) (Inr 4)"
proof -
  let ?jt = "case parametres_annee db (u, 2024) of Some j \<Rightarrow> j | None \<Rightarrow> ''ouvres''"
  have "rend (boucle_periodes ?jt 2024 [p1] 0) (Inr (9 / 2))"
    by (rule rend_boucle_periodes_Cons[OF rend_periode_4_8_novembre[OF assms(1-4)]])
       (simp add: rend_retour)
  then have "rend (get_jours_hors_periode_principale db u 2024) (Inr (int_of_decimal (9 / 2)))"
    by (intro rend_hors_periode) (simp_all add: assms(5))
  moreover have "\<lfloor>(9::rat) / 2\<rfloor> = 4" by (rule floor_unique) simp_all
  ultimately show ?thesis by (simp add: int_of_decimal_def)
qed

lemma scenario_deux_periodes:
  assumes "pc_date_debut p1 = Date 2024 11 4" "pc_debut_type p1 = ''matin''"
          "pc_date_fin p1 = Date 2024 11 8" "pc_fin_type p1 = ''matin''"
      and "pc_date_debut p2 = Date 2024 11 8" "pc_debut_type p2 = ''apres_midi''"
          "pc_date_fin p2 = Date 2024 11 8" "pc_fin_type p2 = ''apres_midi''"
      and "periodes_filtrees db u 2024 ''annuel'' = [p2, p1]"
  shows "rend (get_jours_hors_periode_principale db u 2024) (Inr 5)"
proof -
  let ?jt = "case parametres_annee db (u, 2024) of Some j \<Rightarrow> j | None \<Rightarrow> ''ouvres''"
  have "rend (boucle_periodes ?jt 2024 [p1] (0 + 1 / 2)) (Inr 5)"
    by (rule rend_boucle_periodes_Cons[OF rend_periode_4_8_novembre[OF assms(1-4)]])
       (simp add: rend_retour)
  then have "rend (boucle_periodes ?jt 2024 [p2, p1] 0) (Inr 5)"
    by (rule rend_boucle_periodes_Cons[OF rend_periode_8_novembre[OF assms(5-8)]])
  then have "rend (get_jours_hors_periode_principale db u 2024) (Inr (int_of_decimal 5))"
    by (intro rend_hors_periode) (simp_all add: assms(9))
  then show ?thesis by (simp add: int_of_decimal_def)
qed

text \<open>
  Claim C3.  Let \<open>pa\<close> run from 2024-11-04 (morning) to 2024-11-08 (morning) and \<open>pb\<close> from
  2024-11-08 (afternoon) to 2024-11-08 (afternoon).  When \<open>pa\<close> is the only annual leave
  period of the user for the civil year 2024, \<open>get_jours_hors_periode_principale\<close>
  returns 4 (the sum 4.5 truncated) and \<open>calculer_fractionnement_complet\<close> awards 0 days;
  when the annual periods of the user for 2024 are \<open>pa\<close> and \<open>pb\<close>, it returns 5 and the
  award is 1 day.  This holds whatever the counting convention of the user, on any
  coherent cache.
\<close>

theorem scenario_novembre_2024:
  assumes "cache_coherent c"
      and "pc_date_debut pa = Date 2024 11 4" "pc_debut_type pa = ''matin''"
          "pc_date_fin pa = Date 2024 11 8" "pc_fin_type pa = ''matin''"
      and "pc_date_debut pb = Date 2024 11 8" "pc_debut_type pb = ''apres_midi''"
          "pc_date_fin pb = Date 2024 11 8" "pc_fin_type pb = ''apres_midi''"
  shows "(filter (\<lambda>p. pc_user p = u \<and> pc_annee_civile p = 2024 \<and> pc_type_conge p = ''annuel'')
            (periodes_conge db) = [pa]
          \<longrightarrow> fst (get_jours_hors_periode_principale db u 2024 c) = Inr 4
              \<and> fst (calculer_fractionnement_complet db u 2024 c)
                  = Inr \<lparr>jours_hors_periode = 4, jours_fractionnement = 0, res_annee = 2024\<rparr>)
       \<and> (filter (\<lambda>p. pc_user p = u \<and> pc_annee_civile p = 2024 \<and> pc_type_conge p = ''annuel'')
            (periodes_conge dbb) = [pa, pb]
          \<or> filter (\<lambda>p. pc_user p = u \<and> pc_annee_civile p = 2024 \<and> pc_type_conge p = ''annuel'')
            (periodes_conge dbb) = [pb, pa]
          \<longrightarrow> fst (get_jours_hors_periode_principale dbb u 2024 c) = Inr 5
              \<and> fst (calculer_fractionnement_complet dbb u 2024 c)
                  = Inr \<lparr>jours_hors_periode = 5, jours_fractionnement = 1, res_annee = 2024\<rparr>)"
proof -
  have a: "fst (get_jours_hors_periode_principale db u 2024 c) = Inr 4
           \<and> fst (calculer_fractionnement_complet db u 2024 c)
               = Inr \<lparr>jours_hors_periode = 4, jours_fractionnement = 0, res_annee = 2024\<rparr>"
    if f: "filter (\<lambda>p. pc_user p = u \<and> pc_annee_civile p = 2024 \<and> pc_type_conge p = ''annuel'')
            (periodes_conge db) = [pa]"
  proof -
    from f have "periodes_filtrees db u 2024 ''annuel'' = [pa]"
      by (simp add: periodes_filtrees_def)
    from rend_valeur[OF scenario_une_periode[OF assms(2-5) this] assms(1)]
    have v: "fst (get_jours_hors_periode_principale db u 2024 c) = Inr 4" .
    from fractionnement_complet_valeur[OF v] v show ?thesis
      by (simp add: calculer_jours_fractionnement_def)
  qed
  have b: "fst (get_jours_hors_periode_principale dbb u 2024 c) = Inr 5
           \<and> fst (calculer_fractionnement_complet dbb u 2024 c)
               = Inr \<lparr>jours_hors_periode = 5, jours_fractionnement = 1, res_annee = 2024\<rparr>"
    if f: "filter (\<lambda>p. pc_user p = u \<and> pc_annee_civile p = 2024 \<and> pc_type_conge p = ''annuel'')
            (periodes_conge dbb) = [pa, pb]
          \<or> filter (\<lambda>p. pc_user p = u \<and> pc_annee_civile p = 2024 \<and> pc_type_conge p = ''annuel'')
            (periodes_conge dbb) = [pb, pa]"
  proof -
    from f have "periodes_filtrees dbb u 2024 ''annuel'' = [pb, pa]"
      by (auto simp: periodes_filtrees_def assms(2,6) date_le_def)
    from rend_valeur[OF scenario_deux_periodes[OF assms(2-9) this] assms(1)]
    have v: "fst (get_jours_hors_periode_principale dbb u 2024 c) = Inr 5" .
    from fractionnement_complet_valeur[OF v] v show ?thesis
      by (simp add: calculer_jours_fractionnement_def)
  qed
  from a b show ?thesis by blast
qed

theorem scenario_novembre_2024_witness:
  "cache_coherent cache_vide
   \<and> fst (get_jours_hors_periode_principale
        \<lparr>parametres_annee = (\<lambda>k. None), cycles_hebdomadaires = (\<lambda>k. None),
         periodes_conge =
           [\<lparr>pc_id = 1, pc_user = 1, pc_date_debut = Date 2024 11 4, pc_debut_type = ''matin'',
             pc_date_fin = Date 2024 11 8, pc_fin_type = ''matin'', pc_type_conge = ''annuel'',
             pc_annee_civile = 2024\<rparr>]\<rparr>
        1 2024 cache_vide) = Inr 4
   \<and> fst (calculer_fractionnement_complet
        \<lparr>parametres_annee = (\<lambda>k. None), cycles_hebdomadaires = (\<lambda>k. None),
         periodes_conge =
           [\<lparr>pc_id = 1, pc_user = 1, pc_date_debut = Date 2024 11 4, pc_debut_type = ''matin'',
             pc_date_fin = Date 2024 11 8, pc_fin_type = ''matin'', pc_type_conge = ''annuel'',
             pc_annee_civile = 2024\<rparr>]\<rparr>
        1 2024 cache_vide)
       = Inr \<lparr>jours_hors_periode = 4, jours_fractionnement = 0, res_annee = 2024\<rparr>
   \<and> fst (get_jours_hors_periode_principale
        \<lparr>parametres_annee = (\<lambda>k. None), cycles_hebdomadaires = (\<lambda>k. None),
         periodes_conge =
           [\<lparr>pc_id = 1, pc_user = 1, pc_date_debut = Date 2024 11 4, pc_debut_type = ''matin'',
             pc_date_fin = Date 2024 11 8, pc_fin_type = ''matin'', pc_type_conge = ''annuel'',
             pc_annee_civile = 2024\<rparr>,
            \<lparr>pc_id = 2, pc_user = 1, pc_date_debut = Date 2024 11 8,
             pc_debut_type = ''apres_midi'', pc_date_fin = Date 2024 11 8,
             pc_fin_type = ''apres_midi'', pc_type_conge = ''annuel'',
             pc_annee_civile = 2024\<rparr>]\<rparr>
        1 2024 cache_vide) = Inr 5
   \<and> fst (calculer_fractionnement_complet
        \<lparr>parametres_annee = (\<lambda>k. None), cycles_hebdomadaires = (\<lambda>k. None),
         periodes_conge =
           [\<lparr>pc_id = 1, pc_user = 1, pc_date_debut = Date 2024 11 4, pc_debut_type = ''matin'',
             pc_date_fin = Date 2024 11 8, pc_fin_type = ''matin'', pc_type_conge = ''annuel'',
             pc_annee_civile = 2024\<rparr>,
            \<lparr>pc_id = 2, pc_user = 1, pc_date_debut = Date 2024 11 8,
             pc_debut_type = ''apres_midi'', pc_date_fin = Date 2024 11 8,
             pc_fin_type = ''apres_midi'', pc_type_conge = ''annuel'',
             pc_annee_civile = 2024\<rparr>]\<rparr>
        1 2024 cache_vide)
       = Inr \<lparr>jours_hors_periode = 5, jours_fractionnement = 1, res_annee = 2024\<rparr>"
  using scenario_novembre_2024[where c = cache_vide and u = 1
    and pa = "\<lparr>pc_id = 1, pc_user = 1, pc_date_debut = Date 2024 11 4, pc_debut_type = ''matin'',
             pc_date_fin = Date 2024 11 8, pc_fin_type = ''matin'', pc_type_conge = ''annuel'',
             pc_annee_civile = 2024\<rparr>"
    and pb = "\<lparr>pc_id = 2, pc_user = 1, pc_date_debut = Date 2024 11 8,
             pc_debut_type = ''apres_midi'', pc_date_fin = Date 2024 11 8,
             pc_fin_type = ''apres_midi'', pc_type_conge = ''annuel'',
             pc_annee_civile = 2024\<rparr>"
    and db = "\<lparr>parametres_annee = (\<lambda>k. None), cycles_hebdomadaires = (\<lambda>k. None),
         periodes_conge =
           [\<lparr>pc_id = 1, pc_user = 1, pc_date_debut = Date 2024 11 4, pc_debut_type = ''matin'',
             pc_date_fin = Date 2024 11 8, pc_fin_type = ''matin'', pc_type_conge = ''annuel'',
             pc_annee_civile = 2024\<rparr>]\<rparr>"
    and dbb = "\<lparr>parametres_annee = (\<lambda>k. None), cycles_hebdomadaires = (\<lambda>k. None),
         periodes_conge =
           [\<lparr>pc_id = 1, pc_user = 1, pc_date_debut = Date 2024 11 4, pc_debut_type = ''matin'',
             pc_date_fin = Date 2024 11 8, pc_fin_type = ''matin'', pc_type_conge = ''annuel'',
             pc_annee_civile = 2024\<rparr>,
            \<lparr>pc_id = 2, pc_user = 1, pc_date_debut = Date 2024 11 8,
             pc_debut_type = ''apres_midi'', pc_date_fin = Date 2024 11 8,
             pc_fin_type = ''apres_midi'', pc_type_conge = ''annuel'',
             pc_annee_civile = 2024\<rparr>]\<rparr>"]
  by (simp add: cache_vide_coherent)

subsection \<open>The counting convention\<close>

lemma samedi_9_novembre_2024:
  "jour_compte jt (Date 2024 11 9) = (jt = ''ouvrables'')"
  by (simp add: jour_compte_def est_jour_ouvre_def est_jour_ouvrable_def novembre_2024)

lemma rend_periode_9_novembre:
  assumes "pc_date_debut p = Date 2024 11 9" "pc_debut_type p = ''matin''"
          "pc_date_fin p = Date 2024 11 9" "pc_fin_type p = ''apres_midi''"
  shows "rend (jours_hors_de_periode jt 2024 p) (Inr (if jt = ''ouvrables'' then 1 else 0))"
proof -
  have e: "jours_hors_de_periode j 2024 p
             = compter_jours_periode (Date 2024 11 9) (Date 2024 11 9) j True (Some 2024)
                 ''matin'' ''apres_midi''" for j
    using assms by (simp add: jours_hors_de_periode_def Let_def)
  have f: "True \<longrightarrow> jours_feries_calcules 2024
     = Inr [Date 2024 1 1, Date 2024 3 31, Date 2024 4 1, Date 2024 5 1, Date 2024 5 8,
            Date 2024 5 9, Date 2024 5 20, Date 2024 7 14, Date 2024 8 15, Date 2024 11 1,
            Date 2024 11 11, Date 2024 12 25]"
    by (simp add: feries_2024)
  have b: "boucle_comptage (jour_compte jt)
     (if True then [Date 2024 1 1, Date 2024 3 31, Date 2024 4 1, Date 2024 5 1, Date 2024 5 8,
      Date 2024 5 9, Date 2024 5 20, Date 2024 7 14, Date 2024 8 15, Date 2024 11 1,
      Date 2024 11 11, Date 2024 12 25] else [])
     (Date 2024 11 9) (Date 2024 11 9) 0 = Inr (if jt = ''ouvrables'' then 1 else 0)"
    by (simp add: boucle_un_jour date_max_def samedi_9_novembre_2024)
  show ?thesis
    using rend_compter_jours_periode[OF f b, of "''matin''" "''apres_midi''"]
    by (cases "jt = ''ouvrables''") (simp_all add: e samedi_9_novembre_2024)
qed

lemma scenario_samedi:
  assumes "pc_date_debut p = Date 2024 11 9" "pc_debut_type p = ''matin''"
          "pc_date_fin p = Date 2024 11 9" "pc_fin_type p = ''apres_midi''"
      and "periodes_filtrees db u 2024 ''annuel'' = [p]"
  shows "rend (get_jours_hors_periode_principale db u 2024)
           (Inr (if parametres_annee db (u, 2024) = Some ''ouvrables'' then 1 else 0))"
proof -
  let ?jt = "case parametres_annee db (u, 2024) of Some j \<Rightarrow> j | None \<Rightarrow> ''ouvres''"
  have "rend (boucle_periodes ?jt 2024 [p] 0) (Inr (if ?jt = ''ouvrables'' then 1 else 0))"
    by (rule rend_boucle_periodes_Cons[OF rend_periode_9_novembre[OF assms(1-4)]])
       (simp add: rend_retour)
  then have "rend (get_jours_hors_periode_principale db u 2024)
               (Inr (int_of_decimal (if ?jt = ''ouvrables'' then 1 else 0)))"
    by (intro rend_hors_periode) (simp_all add: assms(5))
  moreover have "int_of_decimal (if ?jt = ''ouvrables'' then 1 else 0)
                   = (if parametres_annee db (u, 2024) = Some ''ouvrables'' then 1 else 0)"
    by (cases "parametres_annee db (u, 2024)") (simp_all add: int_of_decimal_def)
  ultimately show ?thesis by simp
qed

lemma cycles_non_consultes:
  "get_jours_hors_periode_principale (db\<lparr>cycles_hebdomadaires := cy\<rparr>) u annee
     = get_jours_hors_periode_principale db u annee"
  by (simp add: get_jours_hors_periode_principale_def periodes_filtrees_def)

text \<open>
  Claim C4.  For every user and every year from 2020 to 2100,
  \<open>get_jours_hors_periode_principale\<close> returns an integer and raises nothing, whether or
  not a \<open>ParametresAnnee\<close> record exists.  The convention is the one of \<open>ParametresAnnee\<close>
  when that record exists and \<open>'ouvres'\<close> otherwise: the table of \<open>CycleHebdomadaire\<close> is
  never read, so replacing it by any other leaves the function unchanged.  For a user
  with a cycle in \<open>'ouvrables'\<close> for 2024, no \<open>ParametresAnnee\<close>, and one annual period on
  Saturday 2024-11-09, the result is 0, where the same period under \<open>ParametresAnnee\<close> in
  \<open>'ouvrables'\<close> gives 1.
\<close>

theorem convention_sans_parametres:
  "(2020 \<le> annee \<and> annee \<le> 2100
      \<longrightarrow> (\<exists>n. fst (get_jours_hors_periode_principale db u annee c) = Inr n))
   \<and> get_jours_hors_periode_principale (db\<lparr>cycles_hebdomadaires := cy\<rparr>) u annee
       = get_jours_hors_periode_principale db u annee
   \<and> fst (get_jours_hors_periode_principale
        \<lparr>parametres_annee = (\<lambda>k. None),
         cycles_hebdomadaires =
           [(7, 2024) \<mapsto> \<lparr>ch_heures_semaine = 35, ch_quotite_travail = 1,
                             ch_jours_ouvres_ou_ouvrables = ''ouvrables''\<rparr>],
         periodes_conge =
           [\<lparr>pc_id = 3, pc_user = 7, pc_date_debut = Date 2024 11 9, pc_debut_type = ''matin'',
             pc_date_fin = Date 2024 11 9, pc_fin_type = ''apres_midi'',
             pc_type_conge = ''annuel'', pc_annee_civile = 2024\<rparr>]\<rparr>
        7 2024 cache_vide) = Inr 0
   \<and> fst (get_jours_hors_periode_principale
        \<lparr>parametres_annee = [(7, 2024) \<mapsto> ''ouvrables''],
         cycles_hebdomadaires =
           [(7, 2024) \<mapsto> \<lparr>ch_heures_semaine = 35, ch_quotite_travail = 1,
                             ch_jours_ouvres_ou_ouvrables = ''ouvrables''\<rparr>],
         periodes_conge =
           [\<lparr>pc_id = 3, pc_user = 7, pc_date_debut = Date 2024 11 9, pc_debut_type = ''matin'',
             pc_date_fin = Date 2024 11 9, pc_fin_type = ''apres_midi'',
             pc_type_conge = ''annuel'', pc_annee_civile = 2024\<rparr>]\<rparr>
        7 2024 cache_vide) = Inr 1"
proof -
  have a: "2020 \<le> annee \<and> annee \<le> 2100
      \<longrightarrow> (\<exists>n. fst (get_jours_hors_periode_principale db u annee c) = Inr n)"
  proof
    assume "2020 \<le> annee \<and> annee \<le> 2100"
    then have "\<exists>n c'. get_jours_hors_periode_principale db u annee c = (Inr n, c')"
      using hors_periode_dans_bornes[of annee db u c] by (simp add: ANNEE_MIN_def ANNEE_MAX_def)
    then show "\<exists>n. fst (get_jours_hors_periode_principale db u annee c) = Inr n" by auto
  qed
  have b: "fst (get_jours_hors_periode_principale db' 7 2024 cache_vide)
             = Inr (if parametres_annee db' (7, 2024) = Some ''ouvrables'' then 1 else 0)"
    if "periodes_conge db'
          = [\<lparr>pc_id = 3, pc_user = 7, pc_date_debut = Date 2024 11 9, pc_debut_type = ''matin'',
             pc_date_fin = Date 2024 11 9, pc_fin_type = ''apres_midi'',
             pc_type_conge = ''annuel'', pc_annee_civile = 2024\<rparr>]" for db'
    by (rule rend_valeur[OF scenario_samedi cache_vide_coherent])
       (simp_all add: periodes_filtrees_def that)
  show ?thesis
    using a by (simp add: cycles_non_consultes b)
qed

theorem convention_sans_parametres_witness:
  "(2020::int) \<le> 2024 \<and> (2024::int) \<le> 2100
   \<and> (\<exists>n. fst (get_jours_hors_periode_principale
        \<lparr>parametres_annee = (\<lambda>k. None),
         cycles_hebdomadaires =
           [(7, 2024) \<mapsto> \<lparr>ch_heures_semaine = 35, ch_quotite_travail = 1,
                             ch_jours_ouvres_ou_ouvrables = ''ouvrables''\<rparr>],
         periodes_conge = []\<rparr> 7 2024 cache_vide) = Inr n)"
  using convention_sans_parametres[where annee = 2024 and u = 7 and c = cache_vide and db =
        "\<lparr>parametres_annee = (\<lambda>k. None),
         cycles_hebdomadaires =
           [(7, 2024) \<mapsto> \<lparr>ch_heures_semaine = 35, ch_quotite_travail = 1,
                             ch_jours_ouvres_ou_ouvrables = ''ouvrables''\<rparr>],
         periodes_conge = []\<rparr>"]
  by simp

subsection \<open>Days of the year\<close>

lemma mois_1_12:
  assumes "1 \<le> (m::int)" "m \<le> 12"
  shows "m = 1 \<or> m = 2 \<or> m = 3 \<or> m = 4 \<or> m = 5 \<or> m = 6 \<or> m = 7 \<or> m = 8 \<or> m = 9
         \<or> m = 10 \<or> m = 11 \<or> m = 12"
proof -
  from assms have "m \<in> set [1..12]" by simp
  then show ?thesis by (simp del: set_upto add: upto.simps)
qed

lemma days_in_month_bornes: "28 \<le> days_in_month y m \<and> days_in_month y m \<le> 31"
  by (simp add: days_in_month_def)

lemma days_before_month_suc:
  assumes "1 \<le> m" "m < 12"
  shows "days_before_month y (m + 1) = days_before_month y m + days_in_month y m"
proof -
  from assms have "m \<le> 12" by simp
  from mois_1_12[OF assms(1) this] assms(2)
  show ?thesis
    by (elim disjE) (simp_all add: days_before_month_def days_in_month_def)
qed

lemma rang_31_decembre: "365 \<le> rang (Date y 12 31)"
  by (simp add: rang_def days_before_month_def)

lemma lendemain_rang:
  assumes "valid_date d" "rang d < 365"
  shows "valid_date (lendemain d) \<and> year (lendemain d) = year d
         \<and> rang (lendemain d) = rang d + 1 \<and> d \<noteq> date_max"
proof (cases d)
  case (Date y m j)
  from assms(1) Date have v: "1 \<le> y" "y \<le> 9999" "1 \<le> m" "m \<le> 12" "1 \<le> j"
      "j \<le> days_in_month y m"
    by (simp_all add: valid_date_def)
  have dm: "d \<noteq> date_max"
    using assms(2) rang_31_decembre[of 9999] by (auto simp: date_max_def)
  show ?thesis
  proof (cases "j < days_in_month y m")
    case True
    with v Date dm show ?thesis
      by (simp add: lendemain_def valid_date_def rang_def)
  next
    case False
    with v have j: "j = days_in_month y m" by simp
    show ?thesis
    proof (cases "m < 12")
      case True
      have "28 \<le> days_in_month y (m + 1)" using days_in_month_bornes[of y "m + 1"] by simp
      with True v j Date dm days_before_month_suc[OF v(3) True, of y] show ?thesis
        by (simp add: lendemain_def valid_date_def rang_def)
    next
      case False
      with v have "m = 12" by simp
      with j have "d = Date y 12 31" using Date by (simp add: days_in_month_def)
      with assms(2) rang_31_decembre[of y] show ?thesis by simp
    qed
  qed
qed

lemma date_plus_jours_rang:
  assumes "valid_date d" "rang d + int n \<le> 365"
  shows "\<exists>d'. date_plus_jours d n = Inr d' \<and> valid_date d' \<and> year d' = year d
               \<and> rang d' = rang d + int n"
  using assms
proof (induction n arbitrary: d)
  case 0
  then show ?case by simp
next
  case (Suc n)
  from Suc.prems have r: "rang d < 365" by simp
  from lendemain_rang[OF Suc.prems(1) r]
  have l: "valid_date (lendemain d)" "year (lendemain d) = year d"
      "rang (lendemain d) = rang d + 1" "d \<noteq> date_max"
    by simp_all
  from Suc.prems l have "rang (lendemain d) + int n \<le> 365" by simp
  from Suc.IH[OF l(1) this] l show ?case
    by (auto simp: bind_e_def date_plus_un_jour_def)
qed

subsection \<open>The list of the holidays\<close>

lemma set_inserer_date: "set (inserer_date x xs) = insert x (set xs)"
  by (induction xs) auto

lemma length_inserer_date: "length (inserer_date x xs) = Suc (length xs)"
  by (induction xs) auto

lemma set_sorted_dates: "set (sorted_dates xs) = set xs"
  by (induction xs) (simp_all add: sorted_dates_def set_inserer_date)

lemma length_sorted_dates: "length (sorted_dates xs) = length xs"
  by (induction xs) (simp_all add: sorted_dates_def length_inserer_date)

lemma fixes_valides:
  assumes "1 \<le> annee" "annee \<le> 9999"
  shows "get_jours_feries_fixes annee
     = Inr [Date annee 1 1, Date annee 5 1, Date annee 5 8, Date annee 7 14, Date annee 8 15,
            Date annee 11 1, Date annee 11 11, Date annee 12 25]"
  using assms
  by (simp add: get_jours_feries_fixes_def mk_date_def dans_int_c_def valid_date_def
        days_in_month_def bind_e_def)

lemma fixes_hors_limites:
  assumes "annee < 1 \<or> 9999 < annee"
  shows "\<exists>e. get_jours_feries_fixes annee = Inl e"
  using assms
  by (auto simp: get_jours_feries_fixes_def mk_date_def valid_date_def bind_e_def)

lemma paques_rang:
  assumes "1 \<le> annee" "annee \<le> 9999"
  shows "\<exists>p. calculer_paques annee = Inr p \<and> valid_date p \<and> year p = annee \<and> rang p \<le> 116"
proof -
  let ?p = "Date annee (gauss_mois annee) (gauss_jour annee)"
  from gauss_mois_jour[of annee]
  have g: "gauss_mois annee = 3 \<or> gauss_mois annee = 4" "1 \<le> gauss_jour annee"
      "gauss_jour annee \<le> 31" "gauss_mois annee = 4 \<longrightarrow> gauss_jour annee \<le> 25"
    by simp_all
  have v: "valid_date ?p"
    using g assms by (auto simp: valid_date_def days_in_month_def)
  have r: "rang ?p \<le> 116"
    using g by (auto simp: rang_def days_before_month_def)
  from paques_valide[OF assms] v r show ?thesis by simp
qed

lemma feries_valides:
  assumes "1 \<le> annee" "annee \<le> 9999"
  shows "\<exists>p l a w. calculer_paques annee = Inr p \<and> date_plus_jours p 1 = Inr l
           \<and> date_plus_jours p 39 = Inr a \<and> date_plus_jours p 50 = Inr w
           \<and> year p = annee \<and> year l = annee \<and> year a = annee \<and> year w = annee
           \<and> jours_feries_calcules annee
               = Inr (sorted_dates
                   ([Date annee 1 1, Date annee 5 1, Date annee 5 8, Date annee 7 14,
                     Date annee 8 15, Date annee 11 1, Date annee 11 11, Date annee 12 25]
                    @ [p, l, a, w]))"
proof -
  from paques_rang[OF assms] obtain p where
    p: "calculer_paques annee = Inr p" "valid_date p" "year p = annee" "rang p \<le> 116"
    by blast
  have "rang p + int 1 \<le> 365" "rang p + int 39 \<le> 365" "rang p + int 50 \<le> 365"
    using p(4) by simp_all
  from this[THEN date_plus_jours_rang[OF p(2)]] p(3)
  obtain l a w where
    l: "date_plus_jours p 1 = Inr l" "year l = annee" and
    a: "date_plus_jours p 39 = Inr a" "year a = annee" and
    w: "date_plus_jours p 50 = Inr w" "year w = annee"
    by auto
  have "jours_feries_calcules annee
               = Inr (sorted_dates
                   ([Date annee 1 1, Date annee 5 1, Date annee 5 8, Date annee 7 14,
                     Date annee 8 15, Date annee 11 1, Date annee 11 11, Date annee 12 25]
                    @ [p, l, a, w]))"
    using l(1) by (simp add: jours_feries_calcules_def fixes_valides[OF assms] p(1) a(1) w(1)
          bind_e_def date_plus_jours_un)
  with p l a w show ?thesis by blast
qed

lemma feries_hors_limites:
  assumes "annee < 1 \<or> 9999 < annee"
  shows "\<exists>e. jours_feries_calcules annee = Inl e"
  using fixes_hors_limites[OF assms]
  by (auto simp: jours_feries_calcules_def bind_e_def)

lemma feries_2059:
  "jours_feries_calcules 2059
     = Inr [Date 2059 1 1, Date 2059 3 30, Date 2059 3 31, Date 2059 5 1, Date 2059 5 8,
            Date 2059 5 8, Date 2059 5 19, Date 2059 7 14, Date 2059 8 15, Date 2059 11 1,
            Date 2059 11 11, Date 2059 12 25]"
proof -
  have g: "gauss_mois 2059 = 3 \<and> gauss_jour 2059 = 30"
  proof -
    have h: "gauss_h 2059 = 7" by (simp add: gauss_h_def)
    have l: "gauss_l 2059 = 1" by (simp add: gauss_l_def h)
    have m: "gauss_m 2059 = 0" by (simp add: gauss_m_def h l)
    show ?thesis by (simp add: gauss_mois_def gauss_jour_def h l m)
  qed
  have p: "calculer_paques 2059 = Inr (Date 2059 3 30)"
    using paques_valide[of 2059] by (simp add: g)
  have p1: "date_plus_un_jour (Date 2059 3 30) = Inr (Date 2059 3 31)"
    by (simp add: calendrier_simps)
  have p39: "date_plus_jours (Date 2059 3 30) 39 = Inr (Date 2059 5 8)"
    by (simp add: calendrier_simps)
  have p50: "date_plus_jours (Date 2059 3 30) 50 = Inr (Date 2059 5 19)"
    by (simp add: calendrier_simps)
  show ?thesis
    by (simp add: jours_feries_calcules_def fixes_valides p p1 p39 p50 bind_e_def
          sorted_dates_def date_le_def)
qed

text \<open>
  Claim C6.  For every year from 1 to 9999, on any coherent cache, \<open>get_jours_feries\<close>
  returns a list of 12 entries, all of them dates of that year: the 8 fixed dates
  (Jan 1, May 1, May 8, Jul 14, Aug 15, Nov 1, Nov 11, Dec 25), Easter Sunday, and Easter
  plus 1, 39 and 50 days; Jan 1 is among them.  The entries need not be distinct, so the
  list may hold fewer than 12 different dates: in 2059 Ascension falls on May 8.  For a
  year outside 1 to 9999 the call raises.
\<close>

theorem get_jours_feries_douze_entrees:
  "(1 \<le> annee \<and> annee \<le> 9999 \<longrightarrow>
      (\<exists>p l a w jf.
          calculer_paques annee = Inr p \<and> date_plus_jours p 1 = Inr l
        \<and> date_plus_jours p 39 = Inr a \<and> date_plus_jours p 50 = Inr w
        \<and> jours_feries_calcules annee = Inr jf
        \<and> (cache_coherent c \<longrightarrow> fst (get_jours_feries annee c) = Inr jf)
        \<and> length jf = 12
        \<and> set jf = {Date annee 1 1, Date annee 5 1, Date annee 5 8, Date annee 7 14,
                     Date annee 8 15, Date annee 11 1, Date annee 11 11, Date annee 12 25,
                     p, l, a, w}
        \<and> (\<forall>d \<in> set jf. year d = annee)
        \<and> Date annee 1 1 \<in> set jf))
   \<and> (annee < 1 \<or> 9999 < annee \<longrightarrow>
        (\<exists>e. jours_feries_calcules annee = Inl e)
        \<and> (cache_coherent c \<longrightarrow> (\<exists>e. fst (get_jours_feries annee c) = Inl e)))"
proof -
  have g: "cache_coherent c \<longrightarrow> fst (get_jours_feries annee c) = jours_feries_calcules annee"
    using rend_valeur[OF rend_get_jours_feries, of c annee] by simp
  have a: "\<exists>p l a w jf.
          calculer_paques annee = Inr p \<and> date_plus_jours p 1 = Inr l
        \<and> date_plus_jours p 39 = Inr a \<and> date_plus_jours p 50 = Inr w
        \<and> jours_feries_calcules annee = Inr jf
        \<and> (cache_coherent c \<longrightarrow> fst (get_jours_feries annee c) = Inr jf)
        \<and> length jf = 12
        \<and> set jf = {Date annee 1 1, Date annee 5 1, Date annee 5 8, Date annee 7 14,
                     Date annee 8 15, Date annee 11 1, Date annee 11 11, Date annee 12 25,
                     p, l, a, w}
        \<and> (\<forall>d \<in> set jf. year d = annee)
        \<and> Date annee 1 1 \<in> set jf"
    if b: "1 \<le> annee \<and> annee \<le> 9999"
  proof -
    from b have b1: "1 \<le> annee" and b2: "annee \<le> 9999" by simp_all
    from feries_valides[OF b1 b2] obtain p l a w where
      f: "calculer_paques annee = Inr p" "date_plus_jours p 1 = Inr l"
         "date_plus_jours p 39 = Inr a" "date_plus_jours p 50 = Inr w"
         "year p = annee" "year l = annee" "year a = annee" "year w = annee"
         "jours_feries_calcules annee
               = Inr (sorted_dates
                   ([Date annee 1 1, Date annee 5 1, Date annee 5 8, Date annee 7 14,
                     Date annee 8 15, Date annee 11 1, Date annee 11 11, Date annee 12 25]
                    @ [p, l, a, w]))"
      by blast
    define jf where "jf = sorted_dates
                   ([Date annee 1 1, Date annee 5 1, Date annee 5 8, Date annee 7 14,
                     Date annee 8 15, Date annee 11 1, Date annee 11 11, Date annee 12 25]
                    @ [p, l, a, w])"
    have len: "length jf = 12" by (simp add: jf_def length_sorted_dates)
    have ens: "set jf = {Date annee 1 1, Date annee 5 1, Date annee 5 8, Date annee 7 14,
                     Date annee 8 15, Date annee 11 1, Date annee 11 11, Date annee 12 25,
                     p, l, a, w}"
      by (simp add: jf_def set_sorted_dates)
    have an: "\<forall>d \<in> set jf. year d = annee"
      unfolding ens using f(5-8) by simp
    have j1: "Date annee 1 1 \<in> set jf" unfolding ens by simp
    from f(9) have c: "jours_feries_calcules annee = Inr jf" by (simp add: jf_def)
    with g have "cache_coherent c \<longrightarrow> fst (get_jours_feries annee c) = Inr jf" by simp
    with f(1-4) c len ens an j1 show ?thesis by blast
  qed
  have h: "(\<exists>e. jours_feries_calcules annee = Inl e)
        \<and> (cache_coherent c \<longrightarrow> (\<exists>e. fst (get_jours_feries annee c) = Inl e))"
    if "annee < 1 \<or> 9999 < annee"
    using feries_hors_limites[OF that] g by auto
  from a h show ?thesis by blast
qed

theorem get_jours_feries_douze_entrees_witness:
  "(1::int) \<le> 2024 \<and> (2024::int) \<le> 9999 \<and> cache_coherent cache_vide
   \<and> (\<exists>p l a w jf.
          calculer_paques 2024 = Inr p \<and> date_plus_jours p 1 = Inr l
        \<and> date_plus_jours p 39 = Inr a \<and> date_plus_jours p 50 = Inr w
        \<and> jours_feries_calcules 2024 = Inr jf
        \<and> fst (get_jours_feries 2024 cache_vide) = Inr jf
        \<and> length jf = 12
        \<and> set jf = {Date 2024 1 1, Date 2024 5 1, Date 2024 5 8, Date 2024 7 14,
                     Date 2024 8 15, Date 2024 11 1, Date 2024 11 11, Date 2024 12 25,
                     p, l, a, w}
        \<and> (\<forall>d \<in> set jf. year d = 2024)
        \<and> Date 2024 1 1 \<in> set jf)
   \<and> (12000::int) > 9999 \<and> (\<exists>e. fst (get_jours_feries 12000 cache_vide) = Inl e)"
  using get_jours_feries_douze_entrees[of 2024 cache_vide]
        get_jours_feries_douze_entrees[of 12000 cache_vide]
  by (simp add: cache_vide_coherent)

theorem get_jours_feries_2059:
  "fst (get_jours_feries 2059 cache_vide)
     = Inr [Date 2059 1 1, Date 2059 3 30, Date 2059 3 31, Date 2059 5 1, Date 2059 5 8,
            Date 2059 5 8, Date 2059 5 19, Date 2059 7 14, Date 2059 8 15, Date 2059 11 1,
            Date 2059 11 11, Date 2059 12 25]
   \<and> card (set [Date 2059 1 1, Date 2059 3 30, Date 2059 3 31, Date 2059 5 1, Date 2059 5 8,
            Date 2059 5 8, Date 2059 5 19, Date 2059 7 14, Date 2059 8 15, Date 2059 11 1,
            Date 2059 11 11, Date 2059 12 25]) = 11
   \<and> calculer_paques 2059 = Inr (Date 2059 3 30)
   \<and> date_plus_jours (Date 2059 3 30) 39 = Inr (Date 2059 5 8)"
proof -
  have "fst (get_jours_feries 2059 cache_vide) = jours_feries_calcules 2059"
    by (rule rend_valeur[OF rend_get_jours_feries cache_vide_coherent])
  moreover have "calculer_paques 2059 = Inr (Date 2059 3 30)"
  proof -
    have h: "gauss_h 2059 = 7" by (simp add: gauss_h_def)
    have l: "gauss_l 2059 = 1" by (simp add: gauss_l_def h)
    have m: "gauss_m 2059 = 0" by (simp add: gauss_m_def h l)
    have "gauss_mois 2059 = 3 \<and> gauss_jour 2059 = 30"
      by (simp add: gauss_mois_def gauss_jour_def h l m)
    then show ?thesis using paques_valide[of 2059] by simp
  qed
  moreover have "date_plus_jours (Date 2059 3 30) 39 = Inr (Date 2059 5 8)"
    by (simp add: calendrier_simps)
  moreover have "card (set [Date 2059 1 1, Date 2059 3 30, Date 2059 3 31, Date 2059 5 1,
            Date 2059 5 8, Date 2059 5 8, Date 2059 5 19, Date 2059 7 14, Date 2059 8 15,
            Date 2059 11 1, Date 2059 11 11, Date 2059 12 25]) = 11"
    by (simp add: card_set)
  ultimately show ?thesis by (simp only: feries_2059 simp_thms)
qed

end
